theory Spec2Isabelle
  imports Main "HOL-Library.Sublist"
begin

section \<open>Strings and numbers of the host language\<close>

text \<open>
  Strings are byte lists. \<open>String.prototype.trim\<close> strips white space and line
  terminators at both ends; the ASCII ones are modelled.
\<close>

definition isWhiteSpace :: "char \<Rightarrow> bool" where
  "isWhiteSpace c = (c \<in> set [CHR '' '', CHR 0x09, CHR 0x0A, CHR 0x0B, CHR 0x0C, CHR 0x0D])"

definition trim :: "string \<Rightarrow> string" where
  "trim s = rev (dropWhile isWhiteSpace (rev (dropWhile isWhiteSpace s)))"

text \<open>\<open>s.split(c)\<close> for a one-character separator: never the empty array.\<close>

fun split :: "char \<Rightarrow> string \<Rightarrow> string list" where
  "split c [] = [[]]"
| "split c (x # xs) =
     (if x = c then [] # split c xs
      else (case split c xs of [] \<Rightarrow> [[x]] | y # ys \<Rightarrow> (x # y) # ys))"

text \<open>\<open>s.includes(i)\<close>: \<open>i\<close> occurs in \<open>s\<close> as a contiguous run.\<close>

definition includes_str :: "string \<Rightarrow> string \<Rightarrow> bool" where
  "includes_str s i = sublist i s"

definition isDigit :: "char \<Rightarrow> bool" where
  "isDigit c = (48 \<le> (of_char c :: nat) \<and> (of_char c :: nat) \<le> 57)"

definition digit_value :: "char \<Rightarrow> nat" where
  "digit_value c = of_char c - 48"

definition digits_value :: "string \<Rightarrow> nat" where
  "digits_value ds = foldl (\<lambda>a c. 10 * a + digit_value c) 0 ds"

text \<open>
  A number is \<open>NaN\<close> or an integer. The host's numbers are doubles, which hold every
  integer below \<open>2^53\<close> exactly; the model keeps the mathematical integer.
\<close>

datatype number = NaN | Num int

text \<open>
  \<open>parseInt(s, 10)\<close>: leading white space is skipped, one sign is read, then the
  longest run of decimal digits; no digit gives \<open>NaN\<close>.
\<close>

definition parseInt :: "string \<Rightarrow> number" where
  "parseInt s =
     (let t = dropWhile isWhiteSpace s;
          neg = (case t of [] \<Rightarrow> False | c # _ \<Rightarrow> c = CHR ''-'');
          u = (case t of [] \<Rightarrow> [] | c # r \<Rightarrow> if c = CHR ''-'' \<or> c = CHR ''+'' then r else t);
          ds = takeWhile isDigit u
      in if ds = [] then NaN
         else Num ((if neg then - 1 else 1) * int (digits_value ds)))"



section \<open>Paths and the file system\<close>

text \<open>
  A path is absolute and normalised: the list of its components below the root, so
  \<open>[]\<close> is \<open>/\<close> and \<open>[''a'', ''pkg'']\<close> is \<open>/a/pkg\<close>.
\<close>

type_synonym path = "string list"

text \<open>\<open>path.dirname\<close>: the parent directory; the root is its own parent.\<close>

definition dirname :: "path \<Rightarrow> path" where
  "dirname p = butlast p"

definition join_segment :: "path \<Rightarrow> string \<Rightarrow> path" where
  "join_segment p seg =
     (if seg = [] \<or> seg = ''.'' then p
      else if seg = ''..'' then butlast p
      else p @ [seg])"

text \<open>\<open>path.join(p, s)\<close> for an absolute \<open>p\<close>: the segments of \<open>s\<close> are applied in turn.\<close>

definition join :: "path \<Rightarrow> string \<Rightarrow> path" where
  "join p s = foldl join_segment p (split CHR ''/'' s)"

datatype node = File string | Dir

type_synonym filesys = "path \<Rightarrow> node option"

definition existsSync :: "filesys \<Rightarrow> path \<Rightarrow> bool" where
  "existsSync fs p = (fs p \<noteq> None)"

definition isDirectory :: "filesys \<Rightarrow> path \<Rightarrow> bool" where
  "isDirectory fs p = (p = [] \<or> fs p = Some Dir)"

section \<open>Environment probes on the file system\<close>

text \<open>
  Modelled from the spec: \<open>pkgUp.pkgUp({ cwd })\<close> is a library helper that is not among
  the sources. It walks upward from \<open>cwd\<close>, the directory itself included, to the
  nearest directory that contains a package manifest, and returns the manifest's path.
\<close>

function pkgUp :: "filesys \<Rightarrow> path \<Rightarrow> path option" where
  "pkgUp fs dir =
     (if existsSync fs (dir @ [''package.json'']) then Some (dir @ [''package.json''])
      else if dir = [] then None
      else pkgUp fs (butlast dir))"
  by pat_completeness auto
termination
  by (relation "measure (\<lambda>(fs, dir). length dir)") auto

declare pkgUp.simps [simp del]

text \<open>
  Modelled from the spec: \<open>tryPaths\<close> is a helper that is not among the sources. It
  returns the first of the given paths that exists.
\<close>

definition tryPaths :: "filesys \<Rightarrow> path list \<Rightarrow> path option" where
  "tryPaths fs ps = List.find (existsSync fs) ps"

definition detectMonorepoRoot :: "filesys \<Rightarrow> path \<Rightarrow> path option" where
  "detectMonorepoRoot fs target =
     (case pkgUp fs (dirname target) of
        None \<Rightarrow> None
      | Some rootPkg \<Rightarrow>
          (let rootDir = dirname rootPkg
           in if tryPaths fs [join rootDir ''lerna.json'', join rootDir ''pnpm-workspace.yaml'']
                   \<noteq> None
              then Some rootDir
              else None))"

section \<open>Data model\<close>

datatype ENpmClient =
  ENpmClient_npm | ENpmClient_cnpm | ENpmClient_tnpm | ENpmClient_yarn | ENpmClient_pnpm

datatype ETemplate = ETemplate_app | ETemplate_max | ETemplate_vueApp | ETemplate_plugin

text \<open>
  \<open>ERegistry\<close> is declared in \<open>./template\<close>, which is not among the sources; its two
  members stay abstract. The variable \<open>registry\<close> holds one of them or the URL found by
  \<open>detectUserRegistry\<close>.
\<close>

datatype registry = ERegistry_npm | ERegistry_taobao | CustomRegistry string

text \<open>\<open>IArgs\<close>: \<open>args._\<close>, \<open>--default\<close>, \<open>--git\<close>, \<open>--install\<close>, \<open>--template\<close>.\<close>

record IArgs =
  args_positional :: "string list"
  args_default :: bool
  args_git :: "bool option"
  args_install :: "bool option"
  args_template :: "string option"

record IContext =
  projectRoot :: path
  inMonorepo :: bool
  target :: path

record ITemplateParams =
  pluginName :: "string option"
  version :: string
  npmClient :: ENpmClient
  registry :: registry
  author :: string
  email :: string
  withHusky :: bool
  extraNpmrc :: string

record IDefaultData = ITemplateParams +
  appTemplate :: "ETemplate option"

definition DEFAULT_DATA :: "string \<Rightarrow> IDefaultData" where
  "DEFAULT_DATA pkg_ver =
     \<lparr> pluginName = Some ''umi-plugin-demo'',
       version = pkg_ver,
       npmClient = ENpmClient_pnpm,
       registry = ERegistry_npm,
       author = ''umijs'',
       email = ''i@domain.com'',
       withHusky = False,
       extraNpmrc = [],
       appTemplate = Some ETemplate_app \<rparr>"

section \<open>Effects: the world, its trace and failures\<close>

text \<open>
  Every call that leaves the program is recorded, in order: spawned commands, the
  template collaborators, the installer and the logger.
\<close>

datatype event =
    Exec string "string list" "path option"
  | UnpackTemplate string path registry
  | GeneratorRun ETemplate path IDefaultData
  | InstallWithNpmClient ENpmClient path
  | LoggerInfo string
  | LoggerWarn string
  | LoggerError string

datatype failure =
    ProcessExit nat
  | Error string
  | ENOENT path
  | EISDIR path
  | Rejected event

record world =
  files :: filesys
  trace :: "event list"

text \<open>
  An awaited call either returns a value or throws; both leave a world behind, so that
  what had happened before a throw stays visible.
\<close>

datatype 'a outcome = Return 'a world | Throw failure world

fun world_of :: "'a outcome \<Rightarrow> world" where
  "world_of (Return _ w) = w"
| "world_of (Throw _ w) = w"

fun await :: "'a outcome \<Rightarrow> ('a \<Rightarrow> world \<Rightarrow> 'b outcome) \<Rightarrow> 'b outcome" where
  "await (Return x w) f = f x w"
| "await (Throw e w) f = Throw e w"

definition emit :: "event \<Rightarrow> world \<Rightarrow> world" where
  "emit ev w = w\<lparr>trace := trace w @ [ev]\<rparr>"

text \<open>
  The collaborators, which the program uses as opaque services: the process-spawn
  primitive (captured standard output and the tree it leaves, or a failure), the two
  template collaborators, the installer, the git identity and the package's own version.
\<close>

record env =
  pkg_version :: string
  gitInfo :: "string \<times> string"
  spawn :: "string \<Rightarrow> string list \<Rightarrow> path option \<Rightarrow> filesys \<Rightarrow> (string \<times> filesys) option"
  unpack :: "string \<Rightarrow> path \<Rightarrow> registry \<Rightarrow> filesys \<Rightarrow> filesys option"
  generate :: "ETemplate \<Rightarrow> path \<Rightarrow> IDefaultData \<Rightarrow> filesys \<Rightarrow> filesys option"
  npmInstall :: "ENpmClient \<Rightarrow> path \<Rightarrow> filesys \<Rightarrow> filesys option"

text \<open>The answers of the prompt collaborator; \<open>None\<close> is a cancelled prompt.\<close>

record clackPrompts =
  select_appTemplate :: "ETemplate option"
  select_npmClient :: "ENpmClient option"
  select_registry :: "registry list \<Rightarrow> registry option"
  text_pluginName :: "string option"

definition execa :: "env \<Rightarrow> string \<Rightarrow> string list \<Rightarrow> path option \<Rightarrow> world \<Rightarrow> string outcome" where
  "execa E cmd args cwd w =
     (let w' = emit (Exec cmd args cwd) w
      in case spawn E cmd args cwd (files w') of
           None \<Rightarrow> Throw (Rejected (Exec cmd args cwd)) w'
         | Some (stdout, fs') \<Rightarrow> Return stdout (w'\<lparr>files := fs'\<rparr>))"

definition unpackTemplate :: "env \<Rightarrow> string \<Rightarrow> path \<Rightarrow> registry \<Rightarrow> world \<Rightarrow> unit outcome" where
  "unpackTemplate E tpl dest reg w =
     (let w' = emit (UnpackTemplate tpl dest reg) w
      in case unpack E tpl dest reg (files w') of
           None \<Rightarrow> Throw (Rejected (UnpackTemplate tpl dest reg)) w'
         | Some fs' \<Rightarrow> Return () (w'\<lparr>files := fs'\<rparr>))"

definition generator_run :: "env \<Rightarrow> ETemplate \<Rightarrow> path \<Rightarrow> IDefaultData \<Rightarrow> world \<Rightarrow> unit outcome" where
  "generator_run E tpl dest dat w =
     (let w' = emit (GeneratorRun tpl dest dat) w
      in case generate E tpl dest dat (files w') of
           None \<Rightarrow> Throw (Rejected (GeneratorRun tpl dest dat)) w'
         | Some fs' \<Rightarrow> Return () (w'\<lparr>files := fs'\<rparr>))"

definition installWithNpmClient :: "env \<Rightarrow> ENpmClient \<Rightarrow> path \<Rightarrow> world \<Rightarrow> unit outcome" where
  "installWithNpmClient E client cwd w =
     (let w' = emit (InstallWithNpmClient client cwd) w
      in case npmInstall E client cwd (files w') of
           None \<Rightarrow> Throw (Rejected (InstallWithNpmClient client cwd)) w'
         | Some fs' \<Rightarrow> Return () (w'\<lparr>files := fs'\<rparr>))"

definition logger_info :: "string \<Rightarrow> world \<Rightarrow> unit outcome" where
  "logger_info msg w = Return () (emit (LoggerInfo msg) w)"

definition logger_warn :: "string \<Rightarrow> world \<Rightarrow> unit outcome" where
  "logger_warn msg w = Return () (emit (LoggerWarn msg) w)"

definition logger_error :: "string \<Rightarrow> world \<Rightarrow> unit outcome" where
  "logger_error msg w = Return () (emit (LoggerError msg) w)"

text \<open>
  \<open>fsExtra.copyFile\<close> needs a source file and the destination's directory, and
  overwrites the destination. \<open>fsExtra.remove\<close> deletes a path with all below it and
  is silent on a missing path. Failures of the operating system other than these
  (permissions, busy files) are outside the model.
\<close>

definition fsExtra_copyFile :: "path \<Rightarrow> path \<Rightarrow> world \<Rightarrow> unit outcome" where
  "fsExtra_copyFile src dst w =
     (case files w src of
        None \<Rightarrow> Throw (ENOENT src) w
      | Some Dir \<Rightarrow> Throw (EISDIR src) w
      | Some (File content) \<Rightarrow>
          if \<not> isDirectory (files w) (dirname dst) then Throw (ENOENT dst) w
          else if files w dst = Some Dir then Throw (EISDIR dst) w
          else Return () (w\<lparr>files := (files w)(dst \<mapsto> File content)\<rparr>))"

definition fsExtra_remove :: "path \<Rightarrow> world \<Rightarrow> unit outcome" where
  "fsExtra_remove p w =
     Return () (w\<lparr>files := (\<lambda>q. if prefix p q then None else files w q)\<rparr>)"

section \<open>The probes that run a command\<close>

definition isChinaRegistry :: "string \<Rightarrow> bool" where
  "isChinaRegistry reg =
     list_ex (\<lambda>i. includes_str reg i)
       [''registry.npm.taobao.org'', ''registry.npmmirror.com'', ''r.cnpmjs.org'',
        ''registry.nlark.com'']"

definition isNpmRegistry :: "string \<Rightarrow> bool" where
  "isNpmRegistry reg =
     list_ex (\<lambda>i. includes_str reg i)
       [''registry.npmjs.org'', ''registry.npmjs.com'', ''registry.yarnpkg.com'']"

definition detectUserRegistry :: "env \<Rightarrow> world \<Rightarrow> string option outcome" where
  "detectUserRegistry E w =
     (case execa E ''npm'' [''config'', ''get'', ''registry''] None w of
        Throw e w' \<Rightarrow> Return None w'
      | Return stdout w' \<Rightarrow>
          (let reg = trim stdout;
               hasCustomRegistry = (\<not> isChinaRegistry reg \<and> \<not> isNpmRegistry reg)
           in Return (if hasCustomRegistry then Some reg else None) w'))"

definition getPnpmMajorVersion :: "env \<Rightarrow> world \<Rightarrow> number outcome" where
  "getPnpmMajorVersion E w =
     (case execa E ''pnpm'' [''--version''] None w of
        Throw e w' \<Rightarrow> Throw (Error ''Please install pnpm first'') w'
      | Return stdout w' \<Rightarrow>
          Return (case split CHR ''.'' (trim stdout) of [] \<Rightarrow> NaN | x # _ \<Rightarrow> parseInt x) w')"

section \<open>The reconciliation steps\<close>

definition moveNpmrc :: "IContext \<Rightarrow> world \<Rightarrow> unit outcome" where
  "moveNpmrc opts w =
     (let sourceNpmrc = join (target opts) ''./.npmrc'';
          targetNpmrc = join (projectRoot opts) ''./.npmrc''
      in await (if \<not> existsSync (files w) targetNpmrc
                then fsExtra_copyFile sourceNpmrc targetNpmrc w
                else Return () w)
           (\<lambda>_. fsExtra_remove sourceNpmrc))"

definition initGit :: "env \<Rightarrow> IContext \<Rightarrow> world \<Rightarrow> unit outcome" where
  "initGit E opts w =
     (let isGit = existsSync (files w) (join (projectRoot opts) ''.git'')
      in if isGit then Return () w
         else (case execa E ''git'' [''init''] (Some (projectRoot opts)) w of
                 Return _ w' \<Rightarrow> Return () w'
               | Throw e w' \<Rightarrow> logger_error ''Initial the git repo failed'' w'))"

definition removeHusky :: "IContext \<Rightarrow> world \<Rightarrow> unit outcome" where
  "removeHusky opts w =
     (let dir = join (target opts) ''./.husky''
      in if existsSync (files w) dir then fsExtra_remove dir w else Return () w)"

definition installWithPnpm8 :: "env \<Rightarrow> path \<Rightarrow> world \<Rightarrow> unit outcome" where
  "installWithPnpm8 E cwd w =
     await (execa E ''pnpm'' [''up'', ''-L''] (Some cwd) w) (\<lambda>_. Return ())"

section \<open>The generator\<close>

text \<open>
  The local variables of the exported generator that are set before the template is
  chosen: \<open>target\<close>, \<open>author\<close>, \<open>email\<close> and \<open>customRegistry\<close> are constants,
  the other four are reassigned by the prompts.
\<close>

record locals =
  l_target :: path
  l_author :: string
  l_email :: string
  l_customRegistry :: "string option"
  l_appTemplate :: ETemplate
  l_npmClient :: ENpmClient
  l_registry :: registry
  l_pluginName :: string

text \<open>\<open>exitPrompt\<close> ends the process with status 1.\<close>

definition exitPrompt :: "world \<Rightarrow> 'a outcome" where
  "exitPrompt w = Throw (ProcessExit 1) w"

text \<open>Each \<open>select\<close> below is the prompt together with the \<open>isCancel\<close> test after it.\<close>

definition selectAppTemplate :: "clackPrompts \<Rightarrow> locals \<Rightarrow> world \<Rightarrow> locals outcome" where
  "selectAppTemplate P st w =
     (case select_appTemplate P of
        None \<Rightarrow> exitPrompt w
      | Some t \<Rightarrow> Return (st\<lparr>l_appTemplate := t\<rparr>) w)"

definition selectNpmClient :: "clackPrompts \<Rightarrow> locals \<Rightarrow> world \<Rightarrow> locals outcome" where
  "selectNpmClient P st w =
     (case select_npmClient P of
        None \<Rightarrow> exitPrompt w
      | Some c \<Rightarrow> Return (st\<lparr>l_npmClient := c\<rparr>) w)"

definition registryOptions :: "string option \<Rightarrow> registry list" where
  "registryOptions customRegistry =
     [ERegistry_npm, ERegistry_taobao] @
     (case customRegistry of
        None \<Rightarrow> []
      | Some url \<Rightarrow> if url = [] then [] else [CustomRegistry url])"

definition selectRegistry :: "clackPrompts \<Rightarrow> locals \<Rightarrow> world \<Rightarrow> locals outcome" where
  "selectRegistry P st w =
     (case select_registry P (registryOptions (l_customRegistry st)) of
        None \<Rightarrow> exitPrompt w
      | Some r \<Rightarrow> Return (st\<lparr>l_registry := r\<rparr>) w)"

definition internalTemplatePrompts :: "clackPrompts \<Rightarrow> locals \<Rightarrow> world \<Rightarrow> locals outcome" where
  "internalTemplatePrompts P st w =
     await (selectAppTemplate P st w) (\<lambda>st w.
     await (selectNpmClient P st w) (\<lambda>st w.
     await (selectRegistry P st w) (\<lambda>st w.
       if l_appTemplate st = ETemplate_plugin
       then (case text_pluginName P of
               None \<Rightarrow> exitPrompt w
             | Some n \<Rightarrow> Return (st\<lparr>l_pluginName := n\<rparr>) w)
       else Return st w)))"

definition useDefaultData :: "IArgs \<Rightarrow> bool" where
  "useDefaultData args = args_default args"

definition useExternalTemplate :: "IArgs \<Rightarrow> bool" where
  "useExternalTemplate args =
     (case args_template args of None \<Rightarrow> False | Some t \<Rightarrow> t \<noteq> [])"

text \<open>
  The first part of the generator: the git identity, the target, the registry probe,
  then the prompts and, for an external template, the unpacking.
\<close>

definition prepare ::
  "env \<Rightarrow> clackPrompts \<Rightarrow> path \<Rightarrow> IArgs \<Rightarrow> IDefaultData \<Rightarrow> world \<Rightarrow> locals outcome" where
  "prepare E P cwd args defaultData w =
     (let name = (case args_positional args of [] \<Rightarrow> [] | n # _ \<Rightarrow> n);
          username = fst (gitInfo E);
          mail = snd (gitInfo E);
          st = \<lparr> l_target = (if name \<noteq> [] then join cwd name else cwd),
                 l_author = (if mail \<noteq> [] \<and> username \<noteq> []
                             then username @ '' <'' @ mail @ ''>'' else []),
                 l_email = mail,
                 l_customRegistry = None,
                 l_appTemplate = (case appTemplate defaultData of
                                    None \<Rightarrow> ETemplate_app | Some t \<Rightarrow> t),
                 l_npmClient = ENpmClient_pnpm,
                 l_registry = ERegistry_npm,
                 l_pluginName = ''umi-plugin-'' @ (if name \<noteq> [] then name else ''demo'') \<rparr>
      in await (detectUserRegistry E w) (\<lambda>customRegistry w.
           let st = st\<lparr>l_customRegistry := customRegistry\<rparr>
           in if useExternalTemplate args
              then await (selectNpmClient P st w) (\<lambda>st w.
                   await (selectRegistry P st w) (\<lambda>st w.
                   await (unpackTemplate E (the (args_template args)) (l_target st)
                            (l_registry st) w) (\<lambda>_.
                     Return st)))
              else if \<not> useDefaultData args then internalTemplatePrompts P st w
              else Return st w))"

text \<open>
  What the generator resolves after the template is chosen: the context
  (workspace probe), the git flags and the values of the package-manager probe. The
  context record is built from \<open>monorepoRoot\<close>, \<open>inMonorepo\<close> and \<open>projectRoot\<close>.
\<close>

record resolved =
  r_context :: IContext
  r_shouldInitGit :: bool
  r_withHusky :: bool
  r_isPnpm :: bool
  r_pnpmMajorVersion :: "number option"
  r_pnpmExtraNpmrc :: string

definition projectContext :: "filesys \<Rightarrow> path \<Rightarrow> IContext" where
  "projectContext fs tgt =
     (let monorepoRoot = detectMonorepoRoot fs tgt;
          inMono = (monorepoRoot \<noteq> None);
          root = (case monorepoRoot of Some d \<Rightarrow> d | None \<Rightarrow> tgt)
      in \<lparr> projectRoot = root, inMonorepo = inMono, target = tgt \<rparr>)"

definition resolve :: "env \<Rightarrow> IArgs \<Rightarrow> locals \<Rightarrow> world \<Rightarrow> resolved outcome" where
  "resolve E args st w =
     (let ctx = projectContext (files w) (l_target st);
          shouldInitGit = (args_git args \<noteq> Some False);
          husky = (shouldInitGit \<and> \<not> inMonorepo ctx);
          isPnpm = (l_npmClient st = ENpmClient_pnpm);
          r = \<lparr> r_context = ctx,
                r_shouldInitGit = shouldInitGit,
                r_withHusky = husky,
                r_isPnpm = isPnpm,
                r_pnpmMajorVersion = None,
                r_pnpmExtraNpmrc = [] \<rparr>
      in if isPnpm
         then await (getPnpmMajorVersion E w) (\<lambda>v.
                Return (r\<lparr> r_pnpmMajorVersion := Some v,
                           r_pnpmExtraNpmrc :=
                             (if v = Num 7 then ''strict-peer-dependencies=false'' else []) \<rparr>))
         else Return r w)"

definition templateData :: "env \<Rightarrow> IArgs \<Rightarrow> IDefaultData \<Rightarrow> locals \<Rightarrow> resolved \<Rightarrow> IDefaultData" where
  "templateData E args defaultData st r =
     (if useDefaultData args then defaultData
      else \<lparr> pluginName = Some (l_pluginName st),
             version = (if includes_str (pkg_version E) ''-canary.'' then pkg_version E
                        else ''^'' @ pkg_version E),
             npmClient = l_npmClient st,
             registry = l_registry st,
             author = l_author st,
             email = l_email st,
             withHusky = r_withHusky r,
             extraNpmrc = (if r_isPnpm r then r_pnpmExtraNpmrc r else []),
             appTemplate = None \<rparr>)"

definition injectInternalTemplateFiles ::
  "env \<Rightarrow> IArgs \<Rightarrow> IDefaultData \<Rightarrow> locals \<Rightarrow> resolved \<Rightarrow> world \<Rightarrow> unit outcome" where
  "injectInternalTemplateFiles E args defaultData st r w =
     generator_run E (l_appTemplate st) (l_target st) (templateData E args defaultData st r) w"

definition installDeps :: "env \<Rightarrow> IArgs \<Rightarrow> locals \<Rightarrow> resolved \<Rightarrow> world \<Rightarrow> unit outcome" where
  "installDeps E args st r w =
     (let isPnpm8 = (r_pnpmMajorVersion r = Some (Num 8))
      in if \<not> useDefaultData args \<and> args_install args \<noteq> Some False
         then (if isPnpm8 then installWithPnpm8 E (l_target st) w
               else installWithNpmClient E (l_npmClient st) (l_target st) w)
         else await (logger_info ''Skip install deps'' w) (\<lambda>_ w.
                if isPnpm8
                then await (logger_warn
                       ''You current using pnpm v8, it will install minimal version of dependencies'' w)
                     (\<lambda>_. logger_warn
                       ''Recommended that you run pnpm up -L to install latest version of dependencies'')
                else Return () w))"

text \<open>The steps after the template files are in place, in the order of the source.\<close>

definition reconcile :: "env \<Rightarrow> IArgs \<Rightarrow> locals \<Rightarrow> resolved \<Rightarrow> world \<Rightarrow> unit outcome" where
  "reconcile E args st r w =
     await (if \<not> r_withHusky r then removeHusky (r_context r) w else Return () w) (\<lambda>_ w.
     await (if inMonorepo (r_context r) then moveNpmrc (r_context r) w else Return () w) (\<lambda>_ w.
     await (if r_shouldInitGit r then initGit E (r_context r) w
            else logger_info ''Skip Git init'' w) (\<lambda>_.
       installDeps E args st r)))"

definition provision :: "env \<Rightarrow> IArgs \<Rightarrow> IDefaultData \<Rightarrow> locals \<Rightarrow> world \<Rightarrow> unit outcome" where
  "provision E args defaultData st w =
     await (resolve E args st w) (\<lambda>r w.
     await (if \<not> useExternalTemplate args
            then injectInternalTemplateFiles E args defaultData st r w
            else Return () w) (\<lambda>_.
       reconcile E args st r))"

text \<open>The exported generator; \<open>defaultData\<close> is \<open>DEFAULT_DATA\<close> when the caller gives none.\<close>

definition generator ::
  "env \<Rightarrow> clackPrompts \<Rightarrow> path \<Rightarrow> IArgs \<Rightarrow> IDefaultData option \<Rightarrow> world \<Rightarrow> unit outcome" where
  "generator E P cwd args defaultData w =
     (let dd = (case defaultData of None \<Rightarrow> DEFAULT_DATA (pkg_version E) | Some d \<Rightarrow> d)
      in await (prepare E P cwd args dd w) (provision E args dd))"

section \<open>Vocabulary of the statements and example inputs\<close>

text \<open>A directory holds a package manifest; a directory holds a workspace marker.\<close>

definition manifest_at :: "filesys \<Rightarrow> path \<Rightarrow> bool" where
  "manifest_at fs d = existsSync fs (d @ [''package.json''])"

definition marker_at :: "filesys \<Rightarrow> path \<Rightarrow> bool" where
  "marker_at fs d =
     (existsSync fs (d @ [''lerna.json'']) \<or> existsSync fs (d @ [''pnpm-workspace.yaml'']))"

text \<open>An event is the call of the template generator.\<close>

fun isGeneratorRun :: "event \<Rightarrow> bool" where
  "isGeneratorRun (GeneratorRun _ _ _) = True"
| "isGeneratorRun _ = False"

text \<open>A step only appends to the trace, and appends no call of the template generator.\<close>

definition adds_no_render :: "world \<Rightarrow> 'a outcome \<Rightarrow> bool" where
  "adds_no_render w m =
     (\<exists>evs. trace (world_of m) = trace w @ evs \<and> list_all (\<lambda>ev. \<not> isGeneratorRun ev) evs)"

text \<open>
  The tree of the specification's example: a manifest at \<open>/a/package.json\<close> and a
  marker at \<open>/a/pnpm-workspace.yaml\<close>; the same tree without the marker; a workspace
  whose manifest and marker sit in the root directory itself; the example tree after an
  external template was unpacked into \<open>/a/pkg/b\<close> (no configuration file); after an
  internal template was rendered there (with one); and after the relocation.
\<close>

definition spec_tree :: filesys where
  "spec_tree =
     [[''a''] \<mapsto> Dir,
      [''a'', ''package.json''] \<mapsto> File [],
      [''a'', ''pnpm-workspace.yaml''] \<mapsto> File [],
      [''a'', ''pkg''] \<mapsto> Dir]"

definition spec_tree_unmarked :: filesys where
  "spec_tree_unmarked = spec_tree([''a'', ''pnpm-workspace.yaml''] := None)"

definition root_workspace :: filesys where
  "root_workspace =
     [[''package.json''] \<mapsto> File [],
      [''pnpm-workspace.yaml''] \<mapsto> File []]"

definition unpacked_tree :: filesys where
  "unpacked_tree =
     spec_tree([''a'', ''pkg'', ''b''] \<mapsto> Dir, [''a'', ''pkg'', ''b'', ''package.json''] \<mapsto> File [])"

definition rendered_tree :: filesys where
  "rendered_tree =
     spec_tree([''a'', ''pkg'', ''b''] \<mapsto> Dir,
               [''a'', ''pkg'', ''b'', ''.npmrc''] \<mapsto> File ''strict-peer-dependencies=false'')"

definition relocated_tree :: filesys where
  "relocated_tree =
     (\<lambda>q. if prefix [''a'', ''pkg'', ''b'', ''.npmrc''] q then None
           else (rendered_tree([''a'', ''.npmrc''] \<mapsto> File ''strict-peer-dependencies=false'')) q)"

definition empty_world :: world where
  "empty_world = \<lparr> files = Map.empty, trace = [] \<rparr>"

definition world_with :: "filesys \<Rightarrow> world" where
  "world_with fs = \<lparr> files = fs, trace = [] \<rparr>"

text \<open>
  A concrete environment: what \<open>pnpm --version\<close> and \<open>npm config get registry\<close>
  print (\<open>None\<close>: the command cannot be executed), and whether \<open>git init\<close> succeeds.
  Unpacking creates the target with a manifest; rendering creates the target with a
  configuration file and a hooks directory.
\<close>

definition example_env :: "string option \<Rightarrow> string option \<Rightarrow> bool \<Rightarrow> env" where
  "example_env pnpm_out registry_out git_ok =
     \<lparr> pkg_version = ''4.0.0'',
       gitInfo = (''dev'', ''dev@example.com''),
       spawn = (\<lambda>cmd args cwd fs.
         if cmd = ''pnpm'' \<and> args = [''--version''] then map_option (\<lambda>out. (out, fs)) pnpm_out
         else if cmd = ''npm'' \<and> args = [''config'', ''get'', ''registry'']
           then map_option (\<lambda>out. (out, fs)) registry_out
         else if cmd = ''git'' \<and> args = [''init'']
           then (case cwd of
                   None \<Rightarrow> None
                 | Some d \<Rightarrow> if git_ok then Some ([], fs(d @ [''.git''] \<mapsto> Dir)) else None)
         else if cmd = ''pnpm'' \<and> args = [''up'', ''-L''] then Some ([], fs)
         else None),
       unpack = (\<lambda>tpl dest reg fs. Some (fs(dest \<mapsto> Dir, dest @ [''package.json''] \<mapsto> File []))),
       generate = (\<lambda>tpl dest dat fs.
         Some (fs(dest \<mapsto> Dir, dest @ [''.npmrc''] \<mapsto> File (extraNpmrc dat),
                  dest @ [''.husky''] \<mapsto> Dir))),
       npmInstall = (\<lambda>client cwd fs. Some fs) \<rparr>"

text \<open>
  Command lines: \<open>--default\<close>; a project name only; a project name with
  \<open>--template my-template\<close>. Prompt answers: none given; pnpm and the public registry.
\<close>

definition default_args :: IArgs where
  "default_args =
     \<lparr> args_positional = [], args_default = True, args_git = None, args_install = None,
       args_template = None \<rparr>"

definition interactive_args :: IArgs where
  "interactive_args =
     \<lparr> args_positional = [''b''], args_default = False, args_git = None, args_install = None,
       args_template = None \<rparr>"

definition external_args :: IArgs where
  "external_args =
     \<lparr> args_positional = [''b''], args_default = False, args_git = None, args_install = None,
       args_template = Some ''my-template'' \<rparr>"

definition no_answers :: clackPrompts where
  "no_answers =
     \<lparr> select_appTemplate = None, select_npmClient = None, select_registry = (\<lambda>_. None),
       text_pluginName = None \<rparr>"

definition pnpm_answers :: clackPrompts where
  "pnpm_answers =
     \<lparr> select_appTemplate = Some ETemplate_app, select_npmClient = Some ENpmClient_pnpm,
       select_registry = (\<lambda>_. Some ERegistry_npm), text_pluginName = None \<rparr>"

text \<open>Locals, contexts and resolved values of the example runs.\<close>

definition example_locals :: "path \<Rightarrow> ENpmClient \<Rightarrow> locals" where
  "example_locals tgt client =
     \<lparr> l_target = tgt, l_author = ''dev <dev@example.com>'', l_email = ''dev@example.com'',
       l_customRegistry = None, l_appTemplate = ETemplate_app, l_npmClient = client,
       l_registry = ERegistry_npm, l_pluginName = ''umi-plugin-b'' \<rparr>"

definition default_locals :: "path \<Rightarrow> locals" where
  "default_locals tgt =
     \<lparr> l_target = tgt, l_author = ''dev <dev@example.com>'', l_email = ''dev@example.com'',
       l_customRegistry = None, l_appTemplate = ETemplate_app, l_npmClient = ENpmClient_pnpm,
       l_registry = ERegistry_npm, l_pluginName = ''umi-plugin-demo'' \<rparr>"

definition workspace_context :: IContext where
  "workspace_context =
     \<lparr> projectRoot = [''a''], inMonorepo = True, target = [''a'', ''pkg'', ''b''] \<rparr>"

definition example_resolved :: "number option \<Rightarrow> resolved" where
  "example_resolved v =
     \<lparr> r_context = \<lparr> projectRoot = [''tmp''], inMonorepo = False, target = [''tmp''] \<rparr>,
       r_shouldInitGit = True, r_withHusky = True, r_isPnpm = (v \<noteq> None),
       r_pnpmMajorVersion = v, r_pnpmExtraNpmrc = [] \<rparr>"

section \<open>The workspace-root probe\<close>

lemma prefix_butlast_iff: "dir \<noteq> [] \<Longrightarrow> prefix d dir \<longleftrightarrow> d = dir \<or> prefix d (butlast dir)"
  by (metis append_butlast_last_id prefix_order.order_refl prefix_snoc)

lemma pkgUp_found:
  "existsSync fs (dir @ [''package.json'']) \<Longrightarrow> pkgUp fs dir = Some (dir @ [''package.json''])"
  by (subst pkgUp.simps) simp

lemma pkgUp_root: "\<not> existsSync fs [''package.json''] \<Longrightarrow> pkgUp fs [] = None"
  by (subst pkgUp.simps) simp

lemma pkgUp_up:
  "\<not> existsSync fs (dir @ [''package.json'']) \<Longrightarrow> dir \<noteq> [] \<Longrightarrow>
     pkgUp fs dir = pkgUp fs (butlast dir)"
  by (subst pkgUp.simps) simp

lemma pkgUp_Some:
  "pkgUp fs dir = Some p \<Longrightarrow>
     \<exists>d. p = d @ [''package.json''] \<and> prefix d dir \<and> manifest_at fs d \<and>
         (\<forall>d'. prefix d' dir \<and> strict_prefix d d' \<longrightarrow> \<not> manifest_at fs d')"
proof (induction fs dir rule: pkgUp.induct)
  case (1 fs dir)
  show ?case
  proof (cases "manifest_at fs dir")
    case True
    then have "pkgUp fs dir = Some (dir @ [''package.json''])"
      unfolding manifest_at_def by (rule pkgUp_found)
    with "1.prems" have p: "p = dir @ [''package.json'']" by simp
    have "\<forall>d'. prefix d' dir \<and> strict_prefix dir d' \<longrightarrow> \<not> manifest_at fs d'"
      by (meson prefix_order.leD)
    with p True show ?thesis by blast
  next
    case False
    then have nex: "\<not> existsSync fs (dir @ [''package.json''])" unfolding manifest_at_def .
    show ?thesis
    proof (cases "dir = []")
      case True
      with nex have "pkgUp fs dir = None" using pkgUp_root by simp
      with "1.prems" show ?thesis by simp
    next
      case ne: False
      from pkgUp_up[OF nex ne] "1.prems" have "pkgUp fs (butlast dir) = Some p" by simp
      from "1.IH"[OF nex ne this] obtain d where d: "p = d @ [''package.json'']"
        "prefix d (butlast dir)" "manifest_at fs d"
        "\<forall>d'. prefix d' (butlast dir) \<and> strict_prefix d d' \<longrightarrow> \<not> manifest_at fs d'"
        by blast
      have pd: "prefix d dir" using d(2) prefix_butlast_iff[OF ne] by blast
      have "\<not> manifest_at fs d'" if "prefix d' dir" "strict_prefix d d'" for d'
      proof (cases "d' = dir")
        case True
        with False show ?thesis by simp
      next
        case False
        with that(1) prefix_butlast_iff[OF ne] have "prefix d' (butlast dir)" by blast
        with d(4) that(2) show ?thesis by blast
      qed
      with pd d(1,3) show ?thesis by blast
    qed
  qed
qed

lemma pkgUp_None:
  "pkgUp fs dir = None \<Longrightarrow> prefix d dir \<Longrightarrow> \<not> manifest_at fs d"
proof (induction fs dir rule: pkgUp.induct)
  case (1 fs dir)
  have nex: "\<not> existsSync fs (dir @ [''package.json''])"
  proof
    assume "existsSync fs (dir @ [''package.json''])"
    from pkgUp_found[OF this] "1.prems"(1) show False by simp
  qed
  show ?case
  proof (cases "d = dir")
    case True
    with nex show ?thesis by (simp add: manifest_at_def)
  next
    case False
    with "1.prems"(2) have ne: "dir \<noteq> []" by auto
    with False "1.prems"(2) prefix_butlast_iff have pb: "prefix d (butlast dir)" by blast
    from pkgUp_up[OF nex ne] "1.prems"(1) have "pkgUp fs (butlast dir) = None" by simp
    from "1.IH"[OF nex ne this pb] show ?thesis .
  qed
qed

lemma pkgUp_nearest:
  assumes "prefix d dir" "manifest_at fs d"
    "\<forall>d'. prefix d' dir \<and> strict_prefix d d' \<longrightarrow> \<not> manifest_at fs d'"
  shows "pkgUp fs dir = Some (d @ [''package.json''])"
proof (cases "pkgUp fs dir")
  case None
  from pkgUp_None[OF None assms(1)] assms(2) show ?thesis by simp
next
  case (Some p)
  from pkgUp_Some[OF Some] obtain e where e: "p = e @ [''package.json'']" "prefix e dir"
    "manifest_at fs e"
    "\<forall>d'. prefix d' dir \<and> strict_prefix e d' \<longrightarrow> \<not> manifest_at fs d'"
    by blast
  have "prefix d e \<or> prefix e d" using assms(1) e(2) by (rule prefix_same_cases)
  then have "d = e"
  proof
    assume "prefix d e"
    with assms(3) e(2,3) show ?thesis by (auto simp: strict_prefix_def)
  next
    assume "prefix e d"
    with e(4) assms(1,2) show ?thesis by (auto simp: strict_prefix_def)
  qed
  with Some e(1) show ?thesis by simp
qed

lemma join_single: "join d ''lerna.json'' = d @ [''lerna.json'']"
  "join d ''pnpm-workspace.yaml'' = d @ [''pnpm-workspace.yaml'']"
  "join d ''./.npmrc'' = d @ [''.npmrc'']"
  "join d ''./.husky'' = d @ [''.husky'']"
  "join d ''.git'' = d @ [''.git'']"
  by (simp_all add: join_def join_segment_def)

lemma tryPaths_markers:
  "tryPaths fs [join d ''lerna.json'', join d ''pnpm-workspace.yaml''] \<noteq> None \<longleftrightarrow> marker_at fs d"
  unfolding tryPaths_def join_single marker_at_def by (simp add: find_None_iff)

lemma detectMonorepoRoot_pkgUp:
  "detectMonorepoRoot fs tgt =
     (case pkgUp fs (dirname tgt) of None \<Rightarrow> None
      | Some p \<Rightarrow> if marker_at fs (butlast p) then Some (butlast p) else None)"
  unfolding detectMonorepoRoot_def Let_def tryPaths_markers dirname_def ..

lemma detect_SomeD:
  assumes "detectMonorepoRoot fs tgt = Some d"
  shows "prefix d (dirname tgt) \<and> manifest_at fs d \<and>
     (\<forall>d'. prefix d' (dirname tgt) \<and> strict_prefix d d' \<longrightarrow> \<not> manifest_at fs d') \<and>
     marker_at fs d"
proof -
  from assms obtain p where p: "pkgUp fs (dirname tgt) = Some p" "d = butlast p" "marker_at fs d"
    unfolding detectMonorepoRoot_pkgUp by (auto split: option.splits if_splits)
  from pkgUp_Some[OF p(1)] obtain e where e: "p = e @ [''package.json'']" "prefix e (dirname tgt)"
    "manifest_at fs e"
    "\<forall>d'. prefix d' (dirname tgt) \<and> strict_prefix e d' \<longrightarrow> \<not> manifest_at fs d'"
    by blast
  have "d = e" using p(2) e(1) by simp
  with e p(3) show ?thesis by simp
qed

lemma detect_SomeI:
  assumes "prefix d (dirname tgt)" "manifest_at fs d"
    "\<forall>d'. prefix d' (dirname tgt) \<and> strict_prefix d d' \<longrightarrow> \<not> manifest_at fs d'"
    "marker_at fs d"
  shows "detectMonorepoRoot fs tgt = Some d"
proof -
  from assms(1-3) have "pkgUp fs (dirname tgt) = Some (d @ [''package.json''])"
    by (rule pkgUp_nearest)
  with assms(4) show ?thesis unfolding detectMonorepoRoot_pkgUp by simp
qed

lemma detect_char:
  "detectMonorepoRoot fs tgt = Some d \<longleftrightarrow>
     prefix d (dirname tgt) \<and> manifest_at fs d \<and>
     (\<forall>d'. prefix d' (dirname tgt) \<and> strict_prefix d d' \<longrightarrow> \<not> manifest_at fs d') \<and>
     marker_at fs d"
  using detect_SomeD detect_SomeI by blast

lemma prefix_two: "prefix d [x, y] \<longleftrightarrow> d = [] \<or> d = [x] \<or> d = [x, y]"
  by (auto simp: prefix_Cons)

lemma detect_spec_tree: "detectMonorepoRoot spec_tree [''a'', ''pkg'', ''b''] = Some [''a'']"
proof -
  have "\<forall>d'. prefix d' (dirname [''a'', ''pkg'', ''b'']) \<and> strict_prefix [''a''] d'
      \<longrightarrow> \<not> manifest_at spec_tree d'"
    by (auto simp: dirname_def prefix_two manifest_at_def existsSync_def spec_tree_def)
  then show ?thesis unfolding detect_char
    by (simp add: dirname_def manifest_at_def marker_at_def existsSync_def spec_tree_def)
qed

lemma detect_spec_tree_unmarked:
  "detectMonorepoRoot spec_tree_unmarked [''a'', ''pkg'', ''b''] = None"
proof -
  have "\<not> (prefix d (dirname [''a'', ''pkg'', ''b'']) \<and> marker_at spec_tree_unmarked d)" for d
    by (auto simp: dirname_def prefix_two marker_at_def existsSync_def spec_tree_unmarked_def
        spec_tree_def)
  then have "detectMonorepoRoot spec_tree_unmarked [''a'', ''pkg'', ''b''] \<noteq> Some d" for d
    unfolding detect_char by blast
  then show ?thesis
    by (cases "detectMonorepoRoot spec_tree_unmarked [''a'', ''pkg'', ''b'']") auto
qed

lemma detect_root_workspace: "detectMonorepoRoot root_workspace [] = Some []"
  unfolding detect_char
  by (simp add: dirname_def manifest_at_def marker_at_def existsSync_def root_workspace_def)

lemma detect_empty: "detectMonorepoRoot Map.empty tgt = None"
proof (cases "detectMonorepoRoot Map.empty tgt")
  case (Some d)
  then have "manifest_at Map.empty d" by (simp add: detect_char)
  then show ?thesis by (simp add: manifest_at_def existsSync_def)
qed simp

lemma detect_unpacked_tree: "detectMonorepoRoot unpacked_tree [''a'', ''pkg'', ''b''] = Some [''a'']"
proof -
  have "\<forall>d'. prefix d' (dirname [''a'', ''pkg'', ''b'']) \<and> strict_prefix [''a''] d'
      \<longrightarrow> \<not> manifest_at unpacked_tree d'"
    by (auto simp: dirname_def prefix_two manifest_at_def existsSync_def unpacked_tree_def
        spec_tree_def)
  then show ?thesis unfolding detect_char
    by (simp add: dirname_def manifest_at_def marker_at_def existsSync_def unpacked_tree_def
        spec_tree_def)
qed

text \<open>
  Claim C6. For every target, the workspace-root probe returns a directory \<open>d\<close>
  exactly when \<open>d\<close> is the nearest directory at or above the target's parent that
  holds a package manifest and \<open>d\<close> also holds \<open>lerna.json\<close> or
  \<open>pnpm-workspace.yaml\<close>; in every other case (no manifest up the tree, or no
  marker beside the nearest one) it returns nothing.
\<close>

theorem detectMonorepoRoot_nearest_manifest_with_marker:
  "detectMonorepoRoot fs tgt = Some d \<longleftrightarrow>
     prefix d (dirname tgt) \<and> manifest_at fs d \<and>
     (\<forall>d'. prefix d' (dirname tgt) \<and> strict_prefix d d' \<longrightarrow> \<not> manifest_at fs d') \<and>
     marker_at fs d"
proof
  assume "detectMonorepoRoot fs tgt = Some d"
  then show "prefix d (dirname tgt) \<and> manifest_at fs d \<and>
     (\<forall>d'. prefix d' (dirname tgt) \<and> strict_prefix d d' \<longrightarrow> \<not> manifest_at fs d') \<and>
     marker_at fs d"
    by (rule detect_SomeD)
next
  assume r: "prefix d (dirname tgt) \<and> manifest_at fs d \<and>
     (\<forall>d'. prefix d' (dirname tgt) \<and> strict_prefix d d' \<longrightarrow> \<not> manifest_at fs d') \<and>
     marker_at fs d"
  then have "prefix d (dirname tgt)" "manifest_at fs d"
    "\<forall>d'. prefix d' (dirname tgt) \<and> strict_prefix d d' \<longrightarrow> \<not> manifest_at fs d'"
    "marker_at fs d"
    by blast+
  then show "detectMonorepoRoot fs tgt = Some d" by (rule detect_SomeI)
qed

text \<open>
  The example of the specification: with \<open>/a/package.json\<close> and
  \<open>/a/pnpm-workspace.yaml\<close> the probe at \<open>/a/pkg/b\<close> returns \<open>/a\<close>; with the
  marker removed it returns nothing.
\<close>

theorem detectMonorepoRoot_nearest_manifest_with_marker_witness:
  "detectMonorepoRoot spec_tree [''a'', ''pkg'', ''b''] = Some [''a''] \<and>
   detectMonorepoRoot spec_tree_unmarked [''a'', ''pkg'', ''b''] = None"
proof
  have "prefix [''a''] (dirname [''a'', ''pkg'', ''b''])" by (simp add: dirname_def)
  moreover have "manifest_at spec_tree [''a'']"
    by (simp add: manifest_at_def existsSync_def spec_tree_def)
  moreover have "marker_at spec_tree [''a'']"
    by (simp add: marker_at_def existsSync_def spec_tree_def)
  moreover have "\<forall>d'. prefix d' (dirname [''a'', ''pkg'', ''b'']) \<and> strict_prefix [''a''] d'
      \<longrightarrow> \<not> manifest_at spec_tree d'"
    by (auto simp: dirname_def prefix_two manifest_at_def existsSync_def spec_tree_def)
  ultimately show "detectMonorepoRoot spec_tree [''a'', ''pkg'', ''b''] = Some [''a'']"
    using detectMonorepoRoot_nearest_manifest_with_marker[of spec_tree "[''a'', ''pkg'', ''b'']" "[''a'']"]
    by blast
next
  have "\<not> (prefix d (dirname [''a'', ''pkg'', ''b'']) \<and> marker_at spec_tree_unmarked d)" for d
    by (auto simp: dirname_def prefix_two marker_at_def existsSync_def spec_tree_unmarked_def
        spec_tree_def)
  then have "detectMonorepoRoot spec_tree_unmarked [''a'', ''pkg'', ''b''] \<noteq> Some d" for d
    using detectMonorepoRoot_nearest_manifest_with_marker[of spec_tree_unmarked "[''a'', ''pkg'', ''b'']" d]
    by blast
  then show "detectMonorepoRoot spec_tree_unmarked [''a'', ''pkg'', ''b''] = None"
    by (cases "detectMonorepoRoot spec_tree_unmarked [''a'', ''pkg'', ''b'']") auto
qed

section \<open>The project context\<close>

lemma detect_Some_prefix:
  "detectMonorepoRoot fs tgt = Some d \<Longrightarrow> prefix d (dirname tgt)"
  by (simp add: detect_char)

lemma prefix_dirname: "prefix d (dirname tgt) \<Longrightarrow> prefix d tgt"
  unfolding dirname_def by (meson prefix_order.trans prefixeq_butlast)

lemma prefix_dirname_strict: "prefix d (dirname tgt) \<Longrightarrow> tgt \<noteq> [] \<Longrightarrow> strict_prefix d tgt"
proof -
  assume p: "prefix d (dirname tgt)" and ne: "tgt \<noteq> []"
  from p have "length d \<le> length (butlast tgt)" unfolding dirname_def by (rule prefix_length_le)
  with ne have "d \<noteq> tgt" by (cases tgt rule: rev_cases) auto
  with prefix_dirname[OF p] show ?thesis by (simp add: strict_prefix_def)
qed

lemma projectContext_Some:
  "detectMonorepoRoot fs tgt = Some d \<Longrightarrow>
     projectContext fs tgt = \<lparr> projectRoot = d, inMonorepo = True, target = tgt \<rparr>"
  by (simp add: projectContext_def)

lemma projectContext_None:
  "detectMonorepoRoot fs tgt = None \<Longrightarrow>
     projectContext fs tgt = \<lparr> projectRoot = tgt, inMonorepo = False, target = tgt \<rparr>"
  by (simp add: projectContext_def)

lemma inMonorepo_projectContext:
  "inMonorepo (projectContext fs tgt) \<longleftrightarrow> detectMonorepoRoot fs tgt \<noteq> None"
  by (simp add: projectContext_def Let_def)

text \<open>
  Claim C9, as amended. In every constructed context \<open>projectRoot\<close> is an ancestor of
  \<open>target\<close> or \<open>target\<close> itself. When the workspace probe finds a root, it is an
  ancestor-or-self of the target's parent directory, hence a strict ancestor of every
  target other than the root directory; when the probe finds none, \<open>projectRoot\<close> is
  \<open>target\<close>.
\<close>

theorem projectRoot_ancestor_or_self:
  "target (projectContext fs tgt) = tgt \<and>
   prefix (projectRoot (projectContext fs tgt)) tgt \<and>
   (inMonorepo (projectContext fs tgt) \<longleftrightarrow> detectMonorepoRoot fs tgt \<noteq> None) \<and>
   (inMonorepo (projectContext fs tgt) \<longrightarrow>
      detectMonorepoRoot fs tgt = Some (projectRoot (projectContext fs tgt)) \<and>
      prefix (projectRoot (projectContext fs tgt)) (dirname tgt) \<and>
      (tgt \<noteq> [] \<longrightarrow> strict_prefix (projectRoot (projectContext fs tgt)) tgt)) \<and>
   (\<not> inMonorepo (projectContext fs tgt) \<longrightarrow> projectRoot (projectContext fs tgt) = tgt)"
proof (cases "detectMonorepoRoot fs tgt")
  case None
  then show ?thesis by (simp add: projectContext_None)
next
  case (Some d)
  from detect_Some_prefix[OF Some] have p: "prefix d (dirname tgt)" .
  from Some p prefix_dirname[OF p] prefix_dirname_strict[OF p] show ?thesis
    by (simp add: projectContext_Some)
qed

theorem projectRoot_ancestor_or_self_witness:
  "inMonorepo (projectContext spec_tree [''a'', ''pkg'', ''b'']) \<and>
   [''a'', ''pkg'', ''b''] \<noteq> [] \<and>
   projectRoot (projectContext spec_tree [''a'', ''pkg'', ''b'']) = [''a''] \<and>
   strict_prefix (projectRoot (projectContext spec_tree [''a'', ''pkg'', ''b''])) [''a'', ''pkg'', ''b''] \<and>
   \<not> inMonorepo (projectContext spec_tree_unmarked [''a'', ''pkg'', ''b'']) \<and>
   projectRoot (projectContext spec_tree_unmarked [''a'', ''pkg'', ''b'']) = [''a'', ''pkg'', ''b'']"
  using projectRoot_ancestor_or_self[of spec_tree "[''a'', ''pkg'', ''b'']"]
    projectRoot_ancestor_or_self[of spec_tree_unmarked "[''a'', ''pkg'', ''b'']"]
    detect_spec_tree detect_spec_tree_unmarked
  by simp

text \<open>
  Claim C9 as stated fails where the target is the root directory, which is its own
  parent: with the manifest and the marker in \<open>/\<close>, the probe at \<open>/\<close> finds \<open>/\<close>,
  so the project root is the target and not a strict ancestor of it.
\<close>

theorem projectRoot_strict_ancestor_counterexample:
  "detectMonorepoRoot root_workspace [] = Some [] \<and>
   inMonorepo (projectContext root_workspace []) \<and>
   projectRoot (projectContext root_workspace []) = target (projectContext root_workspace []) \<and>
   \<not> strict_prefix (projectRoot (projectContext root_workspace []))
        (target (projectContext root_workspace []))"
  by (simp add: detect_root_workspace projectContext_Some)

section \<open>The package-manager version probe\<close>

lemma split_first: "\<exists>ys. split c s = takeWhile (\<lambda>x. x \<noteq> c) s # ys"
  by (induction s) (auto split: list.splits)

lemma isDigit_not_space: "isDigit c \<Longrightarrow> \<not> isWhiteSpace c"
  by (auto simp: isDigit_def isWhiteSpace_def)

lemma isDigit_not_sign: "isDigit c \<Longrightarrow> c \<noteq> CHR ''-'' \<and> c \<noteq> CHR ''+'' \<and> c \<noteq> CHR ''.''"
  by (auto simp: isDigit_def)

lemma dot_not_space: "\<not> isWhiteSpace CHR ''.''" "\<not> isDigit CHR ''.''"
  by (simp_all add: isWhiteSpace_def isDigit_def)

lemma trim_digits_dot:
  assumes "ds \<noteq> []" "list_all isDigit ds"
  shows "trim (ds @ CHR ''.'' # rest) = ds @ CHR ''.'' # rev (dropWhile isWhiteSpace (rev rest))"
proof -
  from assms obtain d ds' where ds: "ds = d # ds'" "isDigit d" by (cases ds) auto
  then have "dropWhile isWhiteSpace (ds @ CHR ''.'' # rest) = ds @ CHR ''.'' # rest"
    by (simp add: isDigit_not_space)
  moreover have "dropWhile isWhiteSpace (rev rest @ CHR ''.'' # rev ds)
      = dropWhile isWhiteSpace (rev rest) @ CHR ''.'' # rev ds"
    by (rule dropWhile_append3) (rule dot_not_space)
  ultimately show ?thesis by (simp add: trim_def)
qed

lemma takeWhile_digits_dot:
  assumes "list_all isDigit ds"
  shows "takeWhile (\<lambda>x. x \<noteq> CHR ''.'') (ds @ CHR ''.'' # rest) = ds"
proof -
  have "\<forall>x\<in>set ds. x \<noteq> CHR ''.''" using assms isDigit_not_sign by (auto simp: list_all_iff)
  then show ?thesis by (simp add: takeWhile_append2)
qed






lemma parseInt_digits:
  assumes "ds \<noteq> []" "list_all isDigit ds"
  shows "parseInt ds = Num (int (digits_value ds))"
proof -
  from assms obtain d ds' where ds: "ds = d # ds'" "isDigit d" by (cases ds) auto
  have tw: "takeWhile isDigit ds = ds" using assms(2) by (simp add: list_all_iff)
  have dw: "dropWhile isWhiteSpace ds = ds" using ds by (simp add: isDigit_not_space)
  have sg: "(case ds of [] \<Rightarrow> [] | c # r \<Rightarrow> if c = CHR ''-'' \<or> c = CHR ''+'' then r else ds) = ds"
    using ds isDigit_not_sign[OF ds(2)] by simp
  have ng: "(case ds of [] \<Rightarrow> False | c # _ \<Rightarrow> c = CHR ''-'') = False"
    using ds isDigit_not_sign[OF ds(2)] by simp
  show ?thesis unfolding parseInt_def Let_def dw sg ng tw using assms(1) by simp
qed

lemma major_component:
  assumes "ds \<noteq> []" "list_all isDigit ds"
  shows "(case split CHR ''.'' (trim (ds @ CHR ''.'' # rest)) of [] \<Rightarrow> NaN | x # _ \<Rightarrow> parseInt x)
         = Num (int (digits_value ds))"
proof -
  obtain ys where "split CHR ''.'' (trim (ds @ CHR ''.'' # rest)) = ds # ys"
    using split_first[of "CHR ''.''" "trim (ds @ CHR ''.'' # rest)"]
    unfolding trim_digits_dot[OF assms] takeWhile_digits_dot[OF assms(2)] by blast
  then show ?thesis by (simp add: parseInt_digits[OF assms])
qed

lemma execa_Some:
  "spawn E cmd args cwd (files w) = Some (out, fs') \<Longrightarrow>
     execa E cmd args cwd w = Return out (w\<lparr>files := fs', trace := trace w @ [Exec cmd args cwd]\<rparr>)"
  by (simp add: execa_def emit_def)

lemma execa_None:
  "spawn E cmd args cwd (files w) = None \<Longrightarrow>
     execa E cmd args cwd w = Throw (Rejected (Exec cmd args cwd)) (emit (Exec cmd args cwd) w)"
  by (simp add: execa_def emit_def)

lemma getPnpmMajorVersion_digits:
  assumes "spawn E ''pnpm'' [''--version''] None (files w) = Some (ds @ CHR ''.'' # rest, fs')"
    and "ds \<noteq> []" "list_all isDigit ds"
  shows "getPnpmMajorVersion E w =
           Return (Num (int (digits_value ds)))
             (w\<lparr>files := fs', trace := trace w @ [Exec ''pnpm'' [''--version''] None]\<rparr>)"
  unfolding getPnpmMajorVersion_def execa_Some[OF assms(1)]
  by (simp add: major_component[OF assms(2,3)])

lemma getPnpmMajorVersion_None:
  "spawn E ''pnpm'' [''--version''] None (files w) = None \<Longrightarrow>
     getPnpmMajorVersion E w =
       Throw (Error ''Please install pnpm first'') (emit (Exec ''pnpm'' [''--version''] None) w)"
  by (simp add: getPnpmMajorVersion_def execa_None)


lemma getPnpmMajorVersion_example_7:
  "getPnpmMajorVersion (example_env (Some ''7.33.5\<newline>'') reg g) w =
     Return (Num 7) (w\<lparr>trace := trace w @ [Exec ''pnpm'' [''--version''] None]\<rparr>)"
proof -
  have s: "spawn (example_env (Some ''7.33.5\<newline>'') reg g) ''pnpm'' [''--version''] None (files w)
      = Some (''7'' @ CHR ''.'' # ''33.5\<newline>'', files w)"
    by (simp add: example_env_def)
  have "digits_value ''7'' = 7" by (simp add: digits_value_def digit_value_def)
  with getPnpmMajorVersion_digits[OF s] show ?thesis by (simp add: isDigit_def)
qed

lemma getPnpmMajorVersion_example_8:
  "getPnpmMajorVersion (example_env (Some ''8.6.0'') reg g) w =
     Return (Num 8) (w\<lparr>trace := trace w @ [Exec ''pnpm'' [''--version''] None]\<rparr>)"
proof -
  have s: "spawn (example_env (Some ''8.6.0'') reg g) ''pnpm'' [''--version''] None (files w)
      = Some (''8'' @ CHR ''.'' # ''6.0'', files w)"
    by (simp add: example_env_def)
  have "digits_value ''8'' = 8" by (simp add: digits_value_def digit_value_def)
  with getPnpmMajorVersion_digits[OF s] show ?thesis by (simp add: isDigit_def)
qed



section \<open>The registry probe\<close>

lemma trim_example: "trim ''https://npm.corp.example/\<newline>'' = ''https://npm.corp.example/''"
  by (simp add: trim_def isWhiteSpace_def)

lemma detectUserRegistry_None:
  "spawn E ''npm'' [''config'', ''get'', ''registry''] None (files w) = None \<Longrightarrow>
     detectUserRegistry E w =
       Return None (w\<lparr>trace := trace w @ [Exec ''npm'' [''config'', ''get'', ''registry''] None]\<rparr>)"
  by (simp add: detectUserRegistry_def execa_None emit_def)

text \<open>
  Claim C7. The registry probe returns the configured registry URL (the trimmed output
  of \<open>npm config get registry\<close>) exactly when the URL contains none of the three
  default-public hosts and none of the four regional-mirror hosts; when the command
  cannot be executed it returns nothing; it never throws.
\<close>

theorem detectUserRegistry_custom_candidate:
  "(detectUserRegistry E w = Return (Some url) w' \<longleftrightarrow>
      (\<exists>out fs'.
         spawn E ''npm'' [''config'', ''get'', ''registry''] None (files w) = Some (out, fs') \<and>
         url = trim out \<and>
         (\<forall>i \<in> set [''registry.npmjs.org'', ''registry.npmjs.com'', ''registry.yarnpkg.com''].
            \<not> sublist i url) \<and>
         (\<forall>i \<in> set [''registry.npm.taobao.org'', ''registry.npmmirror.com'', ''r.cnpmjs.org'',
                     ''registry.nlark.com'']. \<not> sublist i url) \<and>
         w' = w\<lparr>files := fs', trace := trace w @ [Exec ''npm'' [''config'', ''get'', ''registry''] None]\<rparr>)) \<and>
   (spawn E ''npm'' [''config'', ''get'', ''registry''] None (files w) = None \<longrightarrow>
      detectUserRegistry E w =
        Return None (w\<lparr>trace := trace w @ [Exec ''npm'' [''config'', ''get'', ''registry''] None]\<rparr>)) \<and>
   (\<forall>e w''. detectUserRegistry E w \<noteq> Throw e w'')"
proof (cases "spawn E ''npm'' [''config'', ''get'', ''registry''] None (files w)")
  case None
  from execa_None[OF None] show ?thesis
    by (simp add: detectUserRegistry_def None emit_def)
next
  case (Some a)
  obtain out fs' where a: "a = (out, fs')" by (cases a)
  from execa_Some[OF Some[unfolded a]] show ?thesis
    by (auto simp: detectUserRegistry_def Some a Let_def isChinaRegistry_def isNpmRegistry_def
        includes_str_def)
qed

theorem detectUserRegistry_custom_candidate_witness:
  "detectUserRegistry (example_env None (Some ''https://npm.corp.example/\<newline>'') True) empty_world =
     Return (Some ''https://npm.corp.example/'')
       \<lparr> files = Map.empty, trace = [Exec ''npm'' [''config'', ''get'', ''registry''] None] \<rparr> \<and>
   spawn (example_env None None True) ''npm'' [''config'', ''get'', ''registry''] None (files empty_world) = None \<and>
   detectUserRegistry (example_env None None True) empty_world =
     Return None \<lparr> files = Map.empty, trace = [Exec ''npm'' [''config'', ''get'', ''registry''] None] \<rparr>"
proof -
  let ?E = "example_env None (Some ''https://npm.corp.example/\<newline>'') True"
  have s: "spawn ?E ''npm'' [''config'', ''get'', ''registry''] None (files empty_world)
      = Some (''https://npm.corp.example/\<newline>'', Map.empty)"
    by (simp add: example_env_def empty_world_def)
  have n1: "\<forall>i \<in> set [''registry.npmjs.org'', ''registry.npmjs.com'', ''registry.yarnpkg.com''].
            \<not> sublist i ''https://npm.corp.example/''"
    by (simp add: sublist_code)
  have n2: "\<forall>i \<in> set [''registry.npm.taobao.org'', ''registry.npmmirror.com'', ''r.cnpmjs.org'',
                     ''registry.nlark.com'']. \<not> sublist i ''https://npm.corp.example/''"
    by (simp add: sublist_code)
  have a: "detectUserRegistry ?E empty_world =
     Return (Some ''https://npm.corp.example/'')
       \<lparr> files = Map.empty, trace = [Exec ''npm'' [''config'', ''get'', ''registry''] None] \<rparr>"
    using detectUserRegistry_custom_candidate[of ?E empty_world "''https://npm.corp.example/''"
        "\<lparr> files = Map.empty, trace = [Exec ''npm'' [''config'', ''get'', ''registry''] None] \<rparr>"]
      s n1 n2 trim_example
    by (simp add: empty_world_def)
  have t: "spawn (example_env None None True) ''npm'' [''config'', ''get'', ''registry''] None
      (files empty_world) = None"
    by (simp add: example_env_def)
  have b: "detectUserRegistry (example_env None None True) empty_world =
     Return None \<lparr> files = Map.empty, trace = [Exec ''npm'' [''config'', ''get'', ''registry''] None] \<rparr>"
    using detectUserRegistry_custom_candidate[of "example_env None None True" empty_world] t
    by (simp add: empty_world_def)
  from a t b show ?thesis by simp
qed

section \<open>Resolution of the parameters\<close>

lemma resolve_not_pnpm:
  "l_npmClient st \<noteq> ENpmClient_pnpm \<Longrightarrow>
     resolve E args st w =
       Return \<lparr> r_context = projectContext (files w) (l_target st),
                r_shouldInitGit = (args_git args \<noteq> Some False),
                r_withHusky = (args_git args \<noteq> Some False \<and>
                               \<not> inMonorepo (projectContext (files w) (l_target st))),
                r_isPnpm = False,
                r_pnpmMajorVersion = None,
                r_pnpmExtraNpmrc = [] \<rparr> w"
  by (simp add: resolve_def Let_def)

lemma resolve_pnpm_Throw:
  "l_npmClient st = ENpmClient_pnpm \<Longrightarrow> getPnpmMajorVersion E w = Throw e w' \<Longrightarrow>
     resolve E args st w = Throw e w'"
  by (simp add: resolve_def Let_def)

lemma resolve_pnpm_Return:
  "l_npmClient st = ENpmClient_pnpm \<Longrightarrow> getPnpmMajorVersion E w = Return v w' \<Longrightarrow>
     resolve E args st w =
       Return \<lparr> r_context = projectContext (files w) (l_target st),
                r_shouldInitGit = (args_git args \<noteq> Some False),
                r_withHusky = (args_git args \<noteq> Some False \<and>
                               \<not> inMonorepo (projectContext (files w) (l_target st))),
                r_isPnpm = True,
                r_pnpmMajorVersion = Some v,
                r_pnpmExtraNpmrc =
                  (if v = Num 7 then ''strict-peer-dependencies=false'' else []) \<rparr> w'"
  by (simp add: resolve_def Let_def)

lemma resolve_Return_fields:
  assumes "resolve E args st w = Return r w'"
  shows "r_context r = projectContext (files w) (l_target st)"
    and "r_shouldInitGit r = (args_git args \<noteq> Some False)"
    and "r_withHusky r = (args_git args \<noteq> Some False \<and> \<not> inMonorepo (r_context r))"
    and "r_isPnpm r = (l_npmClient st = ENpmClient_pnpm)"
proof -
  have "r_context r = projectContext (files w) (l_target st) \<and>
        r_shouldInitGit r = (args_git args \<noteq> Some False) \<and>
        r_withHusky r = (args_git args \<noteq> Some False \<and> \<not> inMonorepo (r_context r)) \<and>
        r_isPnpm r = (l_npmClient st = ENpmClient_pnpm)"
  proof (cases "l_npmClient st = ENpmClient_pnpm")
    case False
    from resolve_not_pnpm[OF False, of E args w] assms False show ?thesis by auto
  next
    case True
    show ?thesis
    proof (cases "getPnpmMajorVersion E w")
      case (Return v w1)
      from resolve_pnpm_Return[OF True Return, of args] assms True show ?thesis by auto
    next
      case (Throw e w1)
      from resolve_pnpm_Throw[OF True Throw, of args] assms show ?thesis by simp
    qed
  qed
  then show "r_context r = projectContext (files w) (l_target st)"
    and "r_shouldInitGit r = (args_git args \<noteq> Some False)"
    and "r_withHusky r = (args_git args \<noteq> Some False \<and> \<not> inMonorepo (r_context r))"
    and "r_isPnpm r = (l_npmClient st = ENpmClient_pnpm)"
    by simp_all
qed

text \<open>
  Claim C3. Whatever the raw choices and the probe results, the resolved \<open>withHusky\<close>
  is true exactly when git initialisation is enabled (\<open>--no-git\<close> was not given) and
  the workspace probe found no workspace root for the target; outside a default run it
  is the value handed to the template.
\<close>

theorem withHusky_iff_git_and_not_in_workspace:
  assumes "resolve E args st w = Return r w'"
  shows "(r_withHusky r \<longleftrightarrow>
            args_git args \<noteq> Some False \<and> detectMonorepoRoot (files w) (l_target st) = None) \<and>
         (r_shouldInitGit r \<longleftrightarrow> args_git args \<noteq> Some False) \<and>
         (inMonorepo (r_context r) \<longleftrightarrow> detectMonorepoRoot (files w) (l_target st) \<noteq> None) \<and>
         (\<not> useDefaultData args \<longrightarrow>
            withHusky (templateData E args defaultData st r) = r_withHusky r)"
proof -
  note f = resolve_Return_fields[OF assms]
  have m: "inMonorepo (r_context r) \<longleftrightarrow> detectMonorepoRoot (files w) (l_target st) \<noteq> None"
    unfolding f(1) by (rule inMonorepo_projectContext)
  have h: "r_withHusky r \<longleftrightarrow>
      args_git args \<noteq> Some False \<and> detectMonorepoRoot (files w) (l_target st) = None"
    using f(3) m by blast
  have t: "\<not> useDefaultData args \<longrightarrow>
      withHusky (templateData E args defaultData st r) = r_withHusky r"
    by (simp add: templateData_def)
  from h f(2) m t show ?thesis by blast
qed

theorem withHusky_iff_git_and_not_in_workspace_witness:
  "resolve (example_env None None True) interactive_args
     (example_locals [''a'', ''pkg'', ''b''] ENpmClient_npm) (world_with spec_tree_unmarked) =
     Return \<lparr> r_context = \<lparr> projectRoot = [''a'', ''pkg'', ''b''], inMonorepo = False,
                              target = [''a'', ''pkg'', ''b''] \<rparr>,
              r_shouldInitGit = True, r_withHusky = True, r_isPnpm = False,
              r_pnpmMajorVersion = None, r_pnpmExtraNpmrc = [] \<rparr>
       (world_with spec_tree_unmarked) \<and>
   args_git interactive_args \<noteq> Some False \<and>
   detectMonorepoRoot (files (world_with spec_tree_unmarked)) [''a'', ''pkg'', ''b''] = None \<and>
   \<not> useDefaultData interactive_args \<and>
   withHusky (templateData (example_env None None True) interactive_args (DEFAULT_DATA ''4.0.0'')
     (example_locals [''a'', ''pkg'', ''b''] ENpmClient_npm)
     \<lparr> r_context = \<lparr> projectRoot = [''a'', ''pkg'', ''b''], inMonorepo = False,
                      target = [''a'', ''pkg'', ''b''] \<rparr>,
       r_shouldInitGit = True, r_withHusky = True, r_isPnpm = False,
       r_pnpmMajorVersion = None, r_pnpmExtraNpmrc = [] \<rparr>)"
proof -
  let ?E = "example_env None None True"
  let ?st = "example_locals [''a'', ''pkg'', ''b''] ENpmClient_npm"
  let ?w = "world_with spec_tree_unmarked"
  let ?r = "\<lparr> r_context = \<lparr> projectRoot = [''a'', ''pkg'', ''b''], inMonorepo = False,
                              target = [''a'', ''pkg'', ''b''] \<rparr>,
              r_shouldInitGit = True, r_withHusky = True, r_isPnpm = False,
              r_pnpmMajorVersion = None, r_pnpmExtraNpmrc = [] \<rparr>"
  have d: "detectMonorepoRoot (files ?w) [''a'', ''pkg'', ''b''] = None"
    by (simp add: world_with_def detect_spec_tree_unmarked)
  have c: "projectContext (files ?w) (l_target ?st) =
      \<lparr> projectRoot = [''a'', ''pkg'', ''b''], inMonorepo = False, target = [''a'', ''pkg'', ''b''] \<rparr>"
    using projectContext_None[OF d] by (simp add: example_locals_def)
  have g: "args_git interactive_args \<noteq> Some False" "\<not> useDefaultData interactive_args"
    by (simp_all add: interactive_args_def useDefaultData_def)
  have n: "l_npmClient ?st \<noteq> ENpmClient_pnpm" by (simp add: example_locals_def)
  have r: "resolve ?E interactive_args ?st ?w = Return ?r ?w"
    unfolding resolve_not_pnpm[OF n] c using g(1) by simp
  from withHusky_iff_git_and_not_in_workspace[OF r, of "DEFAULT_DATA ''4.0.0''"] g d
  have "withHusky (templateData ?E interactive_args (DEFAULT_DATA ''4.0.0'') ?st ?r)"
    by simp
  with r g d show ?thesis by simp
qed

section \<open>Config relocation\<close>

lemma npmrc_not_below:
  assumes "strict_prefix root tgt"
  shows "\<not> prefix (tgt @ [n]) (root @ [n])"
proof
  assume "prefix (tgt @ [n]) (root @ [n])"
  then have "length (tgt @ [n]) \<le> length (root @ [n])" by (rule prefix_length_le)
  moreover from assms have "length root < length tgt" by (rule prefix_length_less)
  ultimately show False by simp
qed

lemma moveNpmrc_root_present:
  assumes "existsSync (files w) (projectRoot c @ [''.npmrc''])"
  shows "moveNpmrc c w =
           Return () (w\<lparr>files := (\<lambda>q. if prefix (target c @ [''.npmrc'']) q then None
                                         else files w q)\<rparr>)"
  using assms by (simp add: moveNpmrc_def join_single fsExtra_remove_def)

lemma moveNpmrc_copies:
  assumes "\<not> existsSync (files w) (projectRoot c @ [''.npmrc''])"
    and "files w (target c @ [''.npmrc'']) = Some (File content)"
    and "isDirectory (files w) (projectRoot c)"
  shows "moveNpmrc c w =
           Return () (w\<lparr>files := (\<lambda>q. if prefix (target c @ [''.npmrc'']) q then None
                                         else ((files w)(projectRoot c @ [''.npmrc''] \<mapsto> File content)) q)\<rparr>)"
proof -
  from assms(1) have nd: "files w (projectRoot c @ [''.npmrc'']) \<noteq> Some Dir"
    by (simp add: existsSync_def)
  from assms nd show ?thesis
    by (simp add: moveNpmrc_def join_single fsExtra_copyFile_def fsExtra_remove_def dirname_def
        cong: if_cong)
qed

lemma moveNpmrc_nothing_to_copy:
  assumes "\<not> existsSync (files w) (projectRoot c @ [''.npmrc''])"
    and "files w (target c @ [''.npmrc'']) = None"
  shows "moveNpmrc c w = Throw (ENOENT (target c @ [''.npmrc''])) w"
  using assms by (simp add: moveNpmrc_def join_single fsExtra_copyFile_def)

lemma moveNpmrc_settled:
  assumes "existsSync (files w) (projectRoot c @ [''.npmrc''])"
    and "\<forall>q. prefix (target c @ [''.npmrc'']) q \<longrightarrow> files w q = None"
  shows "moveNpmrc c w = Return () w"
proof -
  from assms(2) have "(\<lambda>q. if prefix (target c @ [''.npmrc'']) q then None else files w q) = files w"
    by (auto simp: fun_eq_iff)
  with moveNpmrc_root_present[OF assms(1)] show ?thesis by simp
qed

text \<open>
  Claim C4, as amended. Let the workspace root be a proper ancestor of the project
  directory, and let a config file exist at the workspace root, or exist as a file at
  the project directory with the workspace root a directory. Then the relocation
  succeeds, a second run succeeds and changes nothing, exactly the root holds a config
  file and the project directory holds none; the root file is the one found there
  before the first run, or else the copy of the project's file: no run overwrites it.
\<close>

theorem moveNpmrc_twice:
  assumes apart: "strict_prefix (projectRoot c) (target c)"
    and config: "existsSync (files w) (projectRoot c @ [''.npmrc'']) \<or>
                 ((\<exists>content. files w (target c @ [''.npmrc'']) = Some (File content)) \<and>
                  isDirectory (files w) (projectRoot c))"
  shows "\<exists>w1. moveNpmrc c w = Return () w1 \<and> moveNpmrc c w1 = Return () w1 \<and>
           existsSync (files w1) (projectRoot c @ [''.npmrc'']) \<and>
           \<not> existsSync (files w1) (target c @ [''.npmrc'']) \<and>
           files w1 (projectRoot c @ [''.npmrc'']) =
             (if existsSync (files w) (projectRoot c @ [''.npmrc''])
              then files w (projectRoot c @ [''.npmrc''])
              else files w (target c @ [''.npmrc'']))"
proof -
  let ?src = "target c @ [''.npmrc'']" and ?dst = "projectRoot c @ [''.npmrc'']"
  have nb: "\<not> prefix ?src ?dst" using apart by (rule npmrc_not_below)
  show ?thesis
  proof (cases "existsSync (files w) ?dst")
    case True
    let ?w1 = "w\<lparr>files := (\<lambda>q. if prefix ?src q then None else files w q)\<rparr>"
    have 1: "moveNpmrc c w = Return () ?w1" using True by (rule moveNpmrc_root_present)
    have kept: "files ?w1 ?dst = files w ?dst" using nb by simp
    with True have ex: "existsSync (files ?w1) ?dst" by (simp add: existsSync_def)
    have gone: "\<forall>q. prefix ?src q \<longrightarrow> files ?w1 q = None" by simp
    have 2: "moveNpmrc c ?w1 = Return () ?w1" using ex gone by (rule moveNpmrc_settled)
    from gone have "\<not> existsSync (files ?w1) ?src" by (simp add: existsSync_def)
    with 1 2 ex kept True show ?thesis by auto
  next
    case False
    with config obtain content where src: "files w ?src = Some (File content)"
      and dir: "isDirectory (files w) (projectRoot c)" by blast
    let ?w1 = "w\<lparr>files := (\<lambda>q. if prefix ?src q then None
                                else ((files w)(?dst \<mapsto> File content)) q)\<rparr>"
    have 1: "moveNpmrc c w = Return () ?w1" using False src dir by (rule moveNpmrc_copies)
    have kept: "files ?w1 ?dst = Some (File content)" using nb by simp
    then have ex: "existsSync (files ?w1) ?dst" by (simp add: existsSync_def)
    have gone: "\<forall>q. prefix ?src q \<longrightarrow> files ?w1 q = None" by simp
    have 2: "moveNpmrc c ?w1 = Return () ?w1" using ex gone by (rule moveNpmrc_settled)
    from gone have "\<not> existsSync (files ?w1) ?src" by (simp add: existsSync_def)
    with 1 2 ex kept False src show ?thesis by auto
  qed
qed

theorem moveNpmrc_twice_witness:
  "strict_prefix (projectRoot workspace_context) (target workspace_context) \<and>
   \<not> existsSync (files (world_with rendered_tree)) (projectRoot workspace_context @ [''.npmrc'']) \<and>
   files (world_with rendered_tree) (target workspace_context @ [''.npmrc'']) =
     Some (File ''strict-peer-dependencies=false'') \<and>
   isDirectory (files (world_with rendered_tree)) (projectRoot workspace_context) \<and>
   moveNpmrc workspace_context (world_with rendered_tree) = Return () (world_with relocated_tree) \<and>
   moveNpmrc workspace_context (world_with relocated_tree) = Return () (world_with relocated_tree) \<and>
   files (world_with relocated_tree) [''a'', ''.npmrc''] = Some (File ''strict-peer-dependencies=false'') \<and>
   files (world_with relocated_tree) [''a'', ''pkg'', ''b'', ''.npmrc''] = None"
proof -
  let ?c = workspace_context and ?w = "world_with rendered_tree"
  have a: "strict_prefix (projectRoot ?c) (target ?c)"
    by (simp add: workspace_context_def)
  have n: "\<not> existsSync (files ?w) (projectRoot ?c @ [''.npmrc''])"
    by (simp add: workspace_context_def world_with_def existsSync_def rendered_tree_def spec_tree_def)
  have s: "files ?w (target ?c @ [''.npmrc'']) = Some (File ''strict-peer-dependencies=false'')"
    by (simp add: workspace_context_def world_with_def rendered_tree_def)
  have d: "isDirectory (files ?w) (projectRoot ?c)"
    by (simp add: workspace_context_def world_with_def isDirectory_def rendered_tree_def spec_tree_def)
  have m: "moveNpmrc ?c ?w = Return () (world_with relocated_tree)"
    using moveNpmrc_copies[OF n s d]
    by (simp add: world_with_def relocated_tree_def workspace_context_def cong: if_cong)
  from moveNpmrc_twice[OF a, of ?w] s d
  obtain w1 where w1: "moveNpmrc ?c ?w = Return () w1" "moveNpmrc ?c w1 = Return () w1"
    "existsSync (files w1) (projectRoot ?c @ [''.npmrc''])"
    "\<not> existsSync (files w1) (target ?c @ [''.npmrc''])"
    "files w1 (projectRoot ?c @ [''.npmrc'']) =
       (if existsSync (files ?w) (projectRoot ?c @ [''.npmrc''])
        then files ?w (projectRoot ?c @ [''.npmrc''])
        else files ?w (target ?c @ [''.npmrc'']))"
    by blast
  from w1(1) m have e: "w1 = world_with relocated_tree" by simp
  from w1(2) e have t: "moveNpmrc ?c (world_with relocated_tree) = Return () (world_with relocated_tree)"
    by simp
  from w1(5) n s e have r: "files (world_with relocated_tree) [''a'', ''.npmrc''] =
      Some (File ''strict-peer-dependencies=false'')"
    by (simp add: workspace_context_def)
  from w1(4) e have l: "files (world_with relocated_tree) [''a'', ''pkg'', ''b'', ''.npmrc''] = None"
    by (simp add: workspace_context_def existsSync_def)
  from a n s d m t r l show ?thesis by blast
qed

text \<open>
  Claim C4 as stated, for every starting state, fails where neither directory holds a
  config file: the copy throws, in the first run and in a second one, and the workspace
  root is left without a config file.
\<close>

theorem moveNpmrc_without_any_config_counterexample:
  "moveNpmrc workspace_context (world_with spec_tree) =
     Throw (ENOENT [''a'', ''pkg'', ''b'', ''.npmrc'']) (world_with spec_tree) \<and>
   moveNpmrc workspace_context (world_of (moveNpmrc workspace_context (world_with spec_tree))) =
     Throw (ENOENT [''a'', ''pkg'', ''b'', ''.npmrc'']) (world_with spec_tree) \<and>
   \<not> existsSync (files (world_with spec_tree)) [''a'', ''.npmrc'']"
proof -
  have n: "\<not> existsSync (files (world_with spec_tree)) (projectRoot workspace_context @ [''.npmrc''])"
    by (simp add: workspace_context_def world_with_def existsSync_def spec_tree_def)
  have s: "files (world_with spec_tree) (target workspace_context @ [''.npmrc'']) = None"
    by (simp add: workspace_context_def world_with_def spec_tree_def)
  from moveNpmrc_nothing_to_copy[OF n s] n show ?thesis
    by (simp add: workspace_context_def)
qed

section \<open>Dependency installation\<close>

lemma installDeps_skip:
  assumes "useDefaultData args \<or> args_install args = Some False"
  shows "installDeps E args st r w =
           Return () (w\<lparr>trace := trace w @ LoggerInfo ''Skip install deps'' #
             (if r_pnpmMajorVersion r = Some (Num 8)
              then [LoggerWarn ''You current using pnpm v8, it will install minimal version of dependencies'',
                    LoggerWarn ''Recommended that you run pnpm up -L to install latest version of dependencies'']
              else [])\<rparr>)"
  using assms by (auto simp: installDeps_def Let_def logger_info_def logger_warn_def emit_def)

lemma installDeps_run:
  assumes "\<not> useDefaultData args" "args_install args \<noteq> Some False"
  shows "trace (world_of (installDeps E args st r w)) =
           trace w @ [if r_pnpmMajorVersion r = Some (Num 8)
                      then Exec ''pnpm'' [''up'', ''-L''] (Some (l_target st))
                      else InstallWithNpmClient (l_npmClient st) (l_target st)]"
  using assms
  by (auto simp: installDeps_def Let_def installWithPnpm8_def installWithNpmClient_def execa_def
      emit_def split: option.splits)

text \<open>
  Claim C10. With the use-defaults flag the installation is skipped and the skip notice
  is logged, whatever the install flag; the same holds when the install flag is
  explicitly false. An installer runs exactly when the use-defaults flag is not set and
  the install flag is not explicitly false.
\<close>

theorem install_skipped_under_defaults:
  "(useDefaultData args \<or> args_install args = Some False \<longrightarrow>
      installDeps E args st r w =
        Return () (w\<lparr>trace := trace w @ LoggerInfo ''Skip install deps'' #
          (if r_pnpmMajorVersion r = Some (Num 8)
           then [LoggerWarn ''You current using pnpm v8, it will install minimal version of dependencies'',
                 LoggerWarn ''Recommended that you run pnpm up -L to install latest version of dependencies'']
           else [])\<rparr>)) \<and>
   (\<not> useDefaultData args \<and> args_install args \<noteq> Some False \<longrightarrow>
      trace (world_of (installDeps E args st r w)) =
        trace w @ [if r_pnpmMajorVersion r = Some (Num 8)
                   then Exec ''pnpm'' [''up'', ''-L''] (Some (l_target st))
                   else InstallWithNpmClient (l_npmClient st) (l_target st)])"
proof (intro conjI impI)
  assume "useDefaultData args \<or> args_install args = Some False"
  then show "installDeps E args st r w =
        Return () (w\<lparr>trace := trace w @ LoggerInfo ''Skip install deps'' #
          (if r_pnpmMajorVersion r = Some (Num 8)
           then [LoggerWarn ''You current using pnpm v8, it will install minimal version of dependencies'',
                 LoggerWarn ''Recommended that you run pnpm up -L to install latest version of dependencies'']
           else [])\<rparr>)"
    by (rule installDeps_skip)
next
  assume "\<not> useDefaultData args \<and> args_install args \<noteq> Some False"
  then show "trace (world_of (installDeps E args st r w)) =
        trace w @ [if r_pnpmMajorVersion r = Some (Num 8)
                   then Exec ''pnpm'' [''up'', ''-L''] (Some (l_target st))
                   else InstallWithNpmClient (l_npmClient st) (l_target st)]"
    using installDeps_run by blast
qed

theorem install_skipped_under_defaults_witness:
  "useDefaultData (default_args\<lparr>args_install := Some True\<rparr>) \<and>
   installDeps (example_env (Some ''9.1.0'') None True) (default_args\<lparr>args_install := Some True\<rparr>)
     (example_locals [''tmp''] ENpmClient_pnpm) (example_resolved (Some (Num 9))) empty_world =
     Return () \<lparr> files = Map.empty, trace = [LoggerInfo ''Skip install deps''] \<rparr> \<and>
   \<not> useDefaultData interactive_args \<and> args_install interactive_args \<noteq> Some False \<and>
   trace (world_of (installDeps (example_env (Some ''9.1.0'') None True) interactive_args
     (example_locals [''tmp''] ENpmClient_pnpm) (example_resolved (Some (Num 9))) empty_world)) =
     [InstallWithNpmClient ENpmClient_pnpm [''tmp'']]"
proof -
  let ?E = "example_env (Some ''9.1.0'') None True"
  let ?st = "example_locals [''tmp''] ENpmClient_pnpm"
  let ?r = "example_resolved (Some (Num 9))"
  have d: "useDefaultData (default_args\<lparr>args_install := Some True\<rparr>)"
    by (simp add: useDefaultData_def default_args_def)
  have i: "\<not> useDefaultData interactive_args" "args_install interactive_args \<noteq> Some False"
    by (simp_all add: useDefaultData_def interactive_args_def)
  have v: "r_pnpmMajorVersion ?r \<noteq> Some (Num 8)" by (simp add: example_resolved_def)
  from install_skipped_under_defaults[of "default_args\<lparr>args_install := Some True\<rparr>" ?E ?st ?r empty_world] d v
  have a: "installDeps ?E (default_args\<lparr>args_install := Some True\<rparr>) ?st ?r empty_world =
     Return () \<lparr> files = Map.empty, trace = [LoggerInfo ''Skip install deps''] \<rparr>"
    by (simp add: empty_world_def)
  from install_skipped_under_defaults[of interactive_args ?E ?st ?r empty_world] i v
  have b: "trace (world_of (installDeps ?E interactive_args ?st ?r empty_world)) =
     [InstallWithNpmClient ENpmClient_pnpm [''tmp'']]"
    by (simp add: empty_world_def example_locals_def)
  from d a i b show ?thesis by simp
qed

section \<open>The fatal probe\<close>

lemma generator_after_prepare:
  assumes "prepare E P cwd args
             (case defaultData of None \<Rightarrow> DEFAULT_DATA (pkg_version E) | Some d \<Rightarrow> d) w = Return st w1"
  shows "generator E P cwd args defaultData w =
           provision E args (case defaultData of None \<Rightarrow> DEFAULT_DATA (pkg_version E) | Some d \<Rightarrow> d)
             st w1"
  using assms by (simp add: generator_def Let_def)

lemma provision_resolve_Throw:
  "resolve E args st w = Throw e w' \<Longrightarrow> provision E args dd st w = Throw e w'"
  by (simp add: provision_def)

lemma join_example: "join [''a'', ''pkg''] ''b'' = [''a'', ''pkg'', ''b'']"
  by (simp add: join_def join_segment_def)

lemma prepare_default_example:
  "prepare (example_env v None g) P [''tmp''] default_args (DEFAULT_DATA ''4.0.0'') (world_with fs) =
     Return (default_locals [''tmp''])
       \<lparr> files = fs, trace = [Exec ''npm'' [''config'', ''get'', ''registry''] None] \<rparr>"
proof -
  have s: "spawn (example_env v None g) ''npm'' [''config'', ''get'', ''registry''] None
      (files (world_with fs)) = None"
    by (simp add: example_env_def)
  show ?thesis
    unfolding prepare_def detectUserRegistry_None[OF s]
    by (simp add: Let_def default_args_def DEFAULT_DATA_def useExternalTemplate_def
        useDefaultData_def example_env_def default_locals_def world_with_def)
qed

lemma prepare_external_example:
  "prepare (example_env v None g) pnpm_answers [''a'', ''pkg''] external_args (DEFAULT_DATA ''4.0.0'')
     (world_with spec_tree) =
     Return (example_locals [''a'', ''pkg'', ''b''] ENpmClient_pnpm)
       \<lparr> files = unpacked_tree,
         trace = [Exec ''npm'' [''config'', ''get'', ''registry''] None,
                  UnpackTemplate ''my-template'' [''a'', ''pkg'', ''b''] ERegistry_npm] \<rparr>"
proof -
  have s: "spawn (example_env v None g) ''npm'' [''config'', ''get'', ''registry''] None
      (files (world_with spec_tree)) = None"
    by (simp add: example_env_def)
  show ?thesis
    unfolding prepare_def detectUserRegistry_None[OF s]
    by (simp add: Let_def external_args_def DEFAULT_DATA_def useExternalTemplate_def
        useDefaultData_def example_env_def example_locals_def world_with_def join_example
        selectNpmClient_def selectRegistry_def pnpm_answers_def unpackTemplate_def emit_def
        unpacked_tree_def)
qed

text \<open>
  Claim C5. When the selected package manager is pnpm and \<open>pnpm --version\<close> cannot be
  executed, the generator throws \<open>Please install pnpm first\<close> in the world that the
  prompts and the unpacking left, with only the probe's call added: no template is
  rendered and no reconciliation step (hooks removal, config relocation, git init,
  installation) has run.
\<close>

theorem pnpm_probe_failure_aborts_before_reconciliation:
  assumes "prepare E P cwd args
             (case defaultData of None \<Rightarrow> DEFAULT_DATA (pkg_version E) | Some d \<Rightarrow> d) w = Return st w1"
    and "l_npmClient st = ENpmClient_pnpm"
    and "spawn E ''pnpm'' [''--version''] None (files w1) = None"
  shows "generator E P cwd args defaultData w =
           Throw (Error ''Please install pnpm first'')
             (w1\<lparr>trace := trace w1 @ [Exec ''pnpm'' [''--version''] None]\<rparr>)"
proof -
  from getPnpmMajorVersion_None[OF assms(3)]
  have "getPnpmMajorVersion E w1 =
      Throw (Error ''Please install pnpm first'')
        (w1\<lparr>trace := trace w1 @ [Exec ''pnpm'' [''--version''] None]\<rparr>)"
    by (simp add: emit_def)
  from resolve_pnpm_Throw[OF assms(2) this]
  have "provision E args (case defaultData of None \<Rightarrow> DEFAULT_DATA (pkg_version E) | Some d \<Rightarrow> d)
          st w1 =
      Throw (Error ''Please install pnpm first'')
        (w1\<lparr>trace := trace w1 @ [Exec ''pnpm'' [''--version''] None]\<rparr>)"
    by (rule provision_resolve_Throw)
  with generator_after_prepare[OF assms(1)] show ?thesis by simp
qed

theorem pnpm_probe_failure_aborts_before_reconciliation_witness:
  "prepare (example_env None None True) no_answers [''tmp''] default_args
     (case None of None \<Rightarrow> DEFAULT_DATA (pkg_version (example_env None None True)) | Some d \<Rightarrow> d)
     (world_with Map.empty) =
     Return (default_locals [''tmp''])
       \<lparr> files = Map.empty, trace = [Exec ''npm'' [''config'', ''get'', ''registry''] None] \<rparr> \<and>
   l_npmClient (default_locals [''tmp'']) = ENpmClient_pnpm \<and>
   spawn (example_env None None True) ''pnpm'' [''--version''] None Map.empty = None \<and>
   generator (example_env None None True) no_answers [''tmp''] default_args None (world_with Map.empty) =
     Throw (Error ''Please install pnpm first'')
       \<lparr> files = Map.empty,
         trace = [Exec ''npm'' [''config'', ''get'', ''registry''] None,
                  Exec ''pnpm'' [''--version''] None] \<rparr>"
proof -
  let ?E = "example_env None None True"
  have v: "pkg_version ?E = ''4.0.0''" by (simp add: example_env_def)
  have p: "prepare ?E no_answers [''tmp''] default_args
     (case None of None \<Rightarrow> DEFAULT_DATA (pkg_version ?E) | Some d \<Rightarrow> d) (world_with Map.empty) =
     Return (default_locals [''tmp''])
       \<lparr> files = Map.empty, trace = [Exec ''npm'' [''config'', ''get'', ''registry''] None] \<rparr>"
    by (simp add: v prepare_default_example)
  have c: "l_npmClient (default_locals [''tmp'']) = ENpmClient_pnpm"
    by (simp add: default_locals_def)
  have s: "spawn ?E ''pnpm'' [''--version''] None
      (files \<lparr> files = Map.empty, trace = [Exec ''npm'' [''config'', ''get'', ''registry''] None] \<rparr>) = None"
    by (simp add: example_env_def)
  from pnpm_probe_failure_aborts_before_reconciliation[OF p c s]
  have g: "generator ?E no_answers [''tmp''] default_args None (world_with Map.empty) =
     Throw (Error ''Please install pnpm first'')
       \<lparr> files = Map.empty,
         trace = [Exec ''npm'' [''config'', ''get'', ''registry''] None,
                  Exec ''pnpm'' [''--version''] None] \<rparr>"
    by simp
  from p c s g show ?thesis by simp
qed

section \<open>The data handed to the template generator\<close>

lemma adds_no_render_Return: "adds_no_render w (Return x w)"
  by (simp add: adds_no_render_def)

lemma adds_no_render_await:
  assumes "adds_no_render w m" and "\<And>x w'. adds_no_render w' (f x w')"
  shows "adds_no_render w (await m f)"
proof (cases m)
  case (Throw e w1)
  with assms(1) show ?thesis by (simp add: adds_no_render_def)
next
  case (Return x w1)
  from assms(1) Return obtain evs1 where 1: "trace w1 = trace w @ evs1"
    "list_all (\<lambda>ev. \<not> isGeneratorRun ev) evs1"
    by (auto simp: adds_no_render_def)
  from assms(2)[of w1 x] obtain evs2 where 2: "trace (world_of (f x w1)) = trace w1 @ evs2"
    "list_all (\<lambda>ev. \<not> isGeneratorRun ev) evs2"
    by (auto simp: adds_no_render_def)
  from 1 2 have "trace (world_of (f x w1)) = trace w @ (evs1 @ evs2)"
    "list_all (\<lambda>ev. \<not> isGeneratorRun ev) (evs1 @ evs2)"
    by simp_all
  with Return show ?thesis unfolding adds_no_render_def by (metis await.simps(1))
qed

lemma adds_no_render_logger:
  "adds_no_render w (logger_info msg w)"
  "adds_no_render w (logger_warn msg w)"
  "adds_no_render w (logger_error msg w)"
  by (simp_all add: adds_no_render_def logger_info_def logger_warn_def logger_error_def emit_def)

lemma adds_no_render_removeHusky: "adds_no_render w (removeHusky c w)"
  by (simp add: adds_no_render_def removeHusky_def fsExtra_remove_def Let_def)

lemma adds_no_render_copyFile: "adds_no_render w (fsExtra_copyFile src dst w)"
  by (simp add: adds_no_render_def fsExtra_copyFile_def split: option.splits node.splits)

lemma adds_no_render_remove: "adds_no_render w (fsExtra_remove p w)"
  by (simp add: adds_no_render_def fsExtra_remove_def)

lemma adds_no_render_moveNpmrc: "adds_no_render w (moveNpmrc c w)"
  unfolding moveNpmrc_def Let_def
  by (intro adds_no_render_await adds_no_render_remove)
     (simp add: adds_no_render_copyFile adds_no_render_Return)

lemma adds_no_render_initGit: "adds_no_render w (initGit E c w)"
  by (auto simp: adds_no_render_def initGit_def execa_def emit_def Let_def logger_error_def
      split: option.splits)

lemma adds_no_render_installDeps: "adds_no_render w (installDeps E args st r w)"
  by (auto simp: adds_no_render_def installDeps_def Let_def installWithPnpm8_def
      installWithNpmClient_def execa_def emit_def logger_info_def logger_warn_def
      split: option.splits)

lemma adds_no_render_reconcile: "adds_no_render w (reconcile E args st r w)"
  unfolding reconcile_def
  by (intro adds_no_render_await adds_no_render_installDeps)
     (simp_all add: adds_no_render_removeHusky adds_no_render_moveNpmrc adds_no_render_initGit
       adds_no_render_logger adds_no_render_Return)

lemma provision_internal:
  assumes "\<not> useExternalTemplate args" "resolve E args st w = Return r w1"
  shows "\<exists>rest. trace (world_of (provision E args dd st w)) =
           trace w1 @ GeneratorRun (l_appTemplate st) (l_target st) (templateData E args dd st r) # rest \<and>
           list_all (\<lambda>ev. \<not> isGeneratorRun ev) rest"
proof (cases "generate E (l_appTemplate st) (l_target st) (templateData E args dd st r) (files w1)")
  case None
  then have "provision E args dd st w =
      Throw (Rejected (GeneratorRun (l_appTemplate st) (l_target st) (templateData E args dd st r)))
        (emit (GeneratorRun (l_appTemplate st) (l_target st) (templateData E args dd st r)) w1)"
    using assms
    by (simp add: provision_def injectInternalTemplateFiles_def generator_run_def Let_def emit_def)
  then show ?thesis by (simp add: emit_def)
next
  case (Some fs')
  let ?w2 = "w1\<lparr>trace := trace w1 @ [GeneratorRun (l_appTemplate st) (l_target st)
                (templateData E args dd st r)], files := fs'\<rparr>"
  from Some have "provision E args dd st w = reconcile E args st r ?w2"
    using assms
    by (simp add: provision_def injectInternalTemplateFiles_def generator_run_def Let_def emit_def)
  moreover from adds_no_render_reconcile[of ?w2 E args st r]
  obtain evs where "trace (world_of (reconcile E args st r ?w2)) = trace ?w2 @ evs"
    "list_all (\<lambda>ev. \<not> isGeneratorRun ev) evs"
    by (auto simp: adds_no_render_def)
  ultimately show ?thesis by simp
qed

lemma provision_default_example:
  "provision (example_env (Some ''7.33.5\<newline>'') None True) default_args (DEFAULT_DATA ''4.0.0'')
     (default_locals [''tmp''])
     \<lparr> files = Map.empty, trace = [Exec ''npm'' [''config'', ''get'', ''registry''] None] \<rparr> =
   Return ()
     \<lparr> files = [[''tmp''] \<mapsto> Dir, [''tmp'', ''.npmrc''] \<mapsto> File [], [''tmp'', ''.husky''] \<mapsto> Dir,
                 [''tmp'', ''.git''] \<mapsto> Dir],
       trace = [Exec ''npm'' [''config'', ''get'', ''registry''] None,
                Exec ''pnpm'' [''--version''] None,
                GeneratorRun ETemplate_app [''tmp''] (DEFAULT_DATA ''4.0.0''),
                Exec ''git'' [''init''] (Some [''tmp'']),
                LoggerInfo ''Skip install deps''] \<rparr>"
proof -
  let ?E = "example_env (Some ''7.33.5\<newline>'') None True"
  let ?w1 = "\<lparr> files = Map.empty, trace = [Exec ''npm'' [''config'', ''get'', ''registry''] None] \<rparr>"
  have c: "l_npmClient (default_locals [''tmp'']) = ENpmClient_pnpm"
    by (simp add: default_locals_def)
  have p: "projectContext (files ?w1) (l_target (default_locals [''tmp''])) =
      \<lparr> projectRoot = [''tmp''], inMonorepo = False, target = [''tmp''] \<rparr>"
    by (simp add: projectContext_None detect_empty default_locals_def)
  show ?thesis
    unfolding provision_def resolve_pnpm_Return[OF c getPnpmMajorVersion_example_7] p
    by (simp add: default_args_def useExternalTemplate_def useDefaultData_def
        injectInternalTemplateFiles_def templateData_def generator_run_def emit_def
        default_locals_def example_env_def reconcile_def initGit_def join_single existsSync_def
        execa_def installDeps_def logger_info_def Let_def)
     (simp add: DEFAULT_DATA_def)
qed

text \<open>
  Claim C2, as amended. In every run that renders an internal template, the generator
  is called once, right after the version probe. Without the use-defaults flag its data
  carry the selected package manager, and their \<open>extraNpmrc\<close> is
  \<open>strict-peer-dependencies=false\<close> if and only if the package manager is pnpm and
  the detected major version is 7, and is empty otherwise. With the use-defaults flag
  the data are the default bundle, unchanged.
\<close>

theorem extraNpmrc_handed_to_generator:
  assumes "\<not> useExternalTemplate args"
    and "if l_npmClient st = ENpmClient_pnpm then getPnpmMajorVersion E w = Return v w1
         else w1 = w"
  shows "\<exists>d rest.
           trace (world_of (provision E args dd st w)) =
             trace w1 @ GeneratorRun (l_appTemplate st) (l_target st) d # rest \<and>
           list_all (\<lambda>ev. \<not> isGeneratorRun ev) rest \<and>
           (if useDefaultData args then d = dd
            else npmClient d = l_npmClient st \<and>
                 extraNpmrc d =
                   (if l_npmClient st = ENpmClient_pnpm \<and> v = Num 7
                    then ''strict-peer-dependencies=false'' else []))"
proof (cases "l_npmClient st = ENpmClient_pnpm")
  case True
  with assms(2) have g: "getPnpmMajorVersion E w = Return v w1" by simp
  let ?r = "\<lparr> r_context = projectContext (files w) (l_target st),
                r_shouldInitGit = (args_git args \<noteq> Some False),
                r_withHusky = (args_git args \<noteq> Some False \<and>
                               \<not> inMonorepo (projectContext (files w) (l_target st))),
                r_isPnpm = True,
                r_pnpmMajorVersion = Some v,
                r_pnpmExtraNpmrc =
                  (if v = Num 7 then ''strict-peer-dependencies=false'' else []) \<rparr>"
  from resolve_pnpm_Return[OF True g] have r: "resolve E args st w = Return ?r w1" .
  from provision_internal[OF assms(1) r, of dd] obtain rest where
    "trace (world_of (provision E args dd st w)) =
       trace w1 @ GeneratorRun (l_appTemplate st) (l_target st) (templateData E args dd st ?r) # rest"
    "list_all (\<lambda>ev. \<not> isGeneratorRun ev) rest" by blast
  moreover have "if useDefaultData args then templateData E args dd st ?r = dd
     else npmClient (templateData E args dd st ?r) = l_npmClient st \<and>
          extraNpmrc (templateData E args dd st ?r) =
            (if l_npmClient st = ENpmClient_pnpm \<and> v = Num 7
             then ''strict-peer-dependencies=false'' else [])"
    using True by (simp add: templateData_def)
  ultimately show ?thesis by blast
next
  case False
  with assms(2) have w1: "w1 = w" by simp
  let ?r = "\<lparr> r_context = projectContext (files w) (l_target st),
                r_shouldInitGit = (args_git args \<noteq> Some False),
                r_withHusky = (args_git args \<noteq> Some False \<and>
                               \<not> inMonorepo (projectContext (files w) (l_target st))),
                r_isPnpm = False,
                r_pnpmMajorVersion = None,
                r_pnpmExtraNpmrc = [] \<rparr>"
  from resolve_not_pnpm[OF False] have r: "resolve E args st w = Return ?r w1"
    unfolding w1 .
  from provision_internal[OF assms(1) r, of dd] obtain rest where
    "trace (world_of (provision E args dd st w)) =
       trace w1 @ GeneratorRun (l_appTemplate st) (l_target st) (templateData E args dd st ?r) # rest"
    "list_all (\<lambda>ev. \<not> isGeneratorRun ev) rest" by blast
  moreover have "if useDefaultData args then templateData E args dd st ?r = dd
     else npmClient (templateData E args dd st ?r) = l_npmClient st \<and>
          extraNpmrc (templateData E args dd st ?r) =
            (if l_npmClient st = ENpmClient_pnpm \<and> v = Num 7
             then ''strict-peer-dependencies=false'' else [])"
    using False by (simp add: templateData_def)
  ultimately show ?thesis by blast
qed

theorem extraNpmrc_handed_to_generator_witness:
  "\<not> useExternalTemplate interactive_args \<and> \<not> useDefaultData interactive_args \<and>
   l_npmClient (example_locals [''tmp''] ENpmClient_pnpm) = ENpmClient_pnpm \<and>
   getPnpmMajorVersion (example_env (Some ''7.33.5\<newline>'') None True) (world_with Map.empty) =
     Return (Num 7) \<lparr> files = Map.empty, trace = [Exec ''pnpm'' [''--version''] None] \<rparr> \<and>
   (\<exists>d rest.
      trace (world_of (provision (example_env (Some ''7.33.5\<newline>'') None True) interactive_args
        (DEFAULT_DATA ''4.0.0'') (example_locals [''tmp''] ENpmClient_pnpm) (world_with Map.empty))) =
        [Exec ''pnpm'' [''--version''] None] @ GeneratorRun ETemplate_app [''tmp''] d # rest \<and>
      npmClient d = ENpmClient_pnpm \<and>
      extraNpmrc d = ''strict-peer-dependencies=false'')"
proof -
  let ?E = "example_env (Some ''7.33.5\<newline>'') None True"
  let ?st = "example_locals [''tmp''] ENpmClient_pnpm"
  let ?w1 = "\<lparr> files = Map.empty, trace = [Exec ''pnpm'' [''--version''] None] \<rparr>"
  have a: "\<not> useExternalTemplate interactive_args" "\<not> useDefaultData interactive_args"
    by (simp_all add: useExternalTemplate_def useDefaultData_def interactive_args_def)
  have c: "l_npmClient ?st = ENpmClient_pnpm" by (simp add: example_locals_def)
  have g: "getPnpmMajorVersion ?E (world_with Map.empty) = Return (Num 7) ?w1"
    by (simp add: getPnpmMajorVersion_example_7 world_with_def)
  have h: "if l_npmClient ?st = ENpmClient_pnpm
           then getPnpmMajorVersion ?E (world_with Map.empty) = Return (Num 7) ?w1
           else ?w1 = world_with Map.empty"
    using c g by simp
  from extraNpmrc_handed_to_generator[OF a(1) h, of "DEFAULT_DATA ''4.0.0''"] a(2) c
  have "\<exists>d rest.
      trace (world_of (provision ?E interactive_args (DEFAULT_DATA ''4.0.0'') ?st (world_with Map.empty))) =
        [Exec ''pnpm'' [''--version''] None] @ GeneratorRun ETemplate_app [''tmp''] d # rest \<and>
      npmClient d = ENpmClient_pnpm \<and>
      extraNpmrc d = ''strict-peer-dependencies=false''"
    by (auto simp: example_locals_def)
  with a c g show ?thesis by blast
qed

text \<open>
  Claim C2 as stated, for every run, fails for a default run: with pnpm selected and
  major version 7 detected, the generator receives \<open>DEFAULT_DATA\<close>, whose
  \<open>extraNpmrc\<close> is empty.
\<close>

theorem default_run_gets_no_suppression_line_counterexample:
  "generator (example_env (Some ''7.33.5\<newline>'') None True) no_answers [''tmp''] default_args None
     (world_with Map.empty) =
   Return ()
     \<lparr> files = [[''tmp''] \<mapsto> Dir, [''tmp'', ''.npmrc''] \<mapsto> File [], [''tmp'', ''.husky''] \<mapsto> Dir,
                 [''tmp'', ''.git''] \<mapsto> Dir],
       trace = [Exec ''npm'' [''config'', ''get'', ''registry''] None,
                Exec ''pnpm'' [''--version''] None,
                GeneratorRun ETemplate_app [''tmp''] (DEFAULT_DATA ''4.0.0''),
                Exec ''git'' [''init''] (Some [''tmp'']),
                LoggerInfo ''Skip install deps''] \<rparr> \<and>
   getPnpmMajorVersion (example_env (Some ''7.33.5\<newline>'') None True)
     \<lparr> files = Map.empty, trace = [Exec ''npm'' [''config'', ''get'', ''registry''] None] \<rparr> =
     Return (Num 7)
       \<lparr> files = Map.empty,
         trace = [Exec ''npm'' [''config'', ''get'', ''registry''] None,
                  Exec ''pnpm'' [''--version''] None] \<rparr> \<and>
   npmClient (DEFAULT_DATA ''4.0.0'') = ENpmClient_pnpm \<and>
   extraNpmrc (DEFAULT_DATA ''4.0.0'') = [] \<and>
   extraNpmrc (DEFAULT_DATA ''4.0.0'') \<noteq> ''strict-peer-dependencies=false''"
proof -
  let ?E = "example_env (Some ''7.33.5\<newline>'') None True"
  have v: "pkg_version ?E = ''4.0.0''" by (simp add: example_env_def)
  have "generator ?E no_answers [''tmp''] default_args None (world_with Map.empty) =
      provision ?E default_args (DEFAULT_DATA ''4.0.0'') (default_locals [''tmp''])
        \<lparr> files = Map.empty, trace = [Exec ''npm'' [''config'', ''get'', ''registry''] None] \<rparr>"
    by (simp add: generator_def v prepare_default_example)
  then have g: "generator ?E no_answers [''tmp''] default_args None (world_with Map.empty) =
    Return ()
     \<lparr> files = [[''tmp''] \<mapsto> Dir, [''tmp'', ''.npmrc''] \<mapsto> File [], [''tmp'', ''.husky''] \<mapsto> Dir,
                 [''tmp'', ''.git''] \<mapsto> Dir],
       trace = [Exec ''npm'' [''config'', ''get'', ''registry''] None,
                Exec ''pnpm'' [''--version''] None,
                GeneratorRun ETemplate_app [''tmp''] (DEFAULT_DATA ''4.0.0''),
                Exec ''git'' [''init''] (Some [''tmp'']),
                LoggerInfo ''Skip install deps''] \<rparr>"
    by (simp only: provision_default_example)
  have d: "npmClient (DEFAULT_DATA ''4.0.0'') = ENpmClient_pnpm"
    "extraNpmrc (DEFAULT_DATA ''4.0.0'') = []"
    by (simp_all add: DEFAULT_DATA_def)
  from g d show ?thesis by (simp add: getPnpmMajorVersion_example_7)
qed

section \<open>Failures inside the reconciliation steps\<close>

lemma initGit_present:
  "existsSync (files w) (projectRoot c @ [''.git'']) \<Longrightarrow> initGit E c w = Return () w"
  by (simp add: initGit_def join_single)

lemma initGit_spawned:
  assumes "\<not> existsSync (files w) (projectRoot c @ [''.git''])"
    and "spawn E ''git'' [''init''] (Some (projectRoot c)) (files w) = Some (out, fs')"
  shows "initGit E c w =
           Return () (w\<lparr>files := fs', trace := trace w @ [Exec ''git'' [''init''] (Some (projectRoot c))]\<rparr>)"
  using assms by (simp add: initGit_def join_single execa_Some)

lemma initGit_failed:
  assumes "\<not> existsSync (files w) (projectRoot c @ [''.git''])"
    and "spawn E ''git'' [''init''] (Some (projectRoot c)) (files w) = None"
  shows "initGit E c w =
           Return () (w\<lparr>trace := trace w @ [Exec ''git'' [''init''] (Some (projectRoot c)),
                                              LoggerError ''Initial the git repo failed'']\<rparr>)"
  using assms by (simp add: initGit_def join_single execa_None logger_error_def emit_def)

lemma initGit_returns: "\<exists>w'. initGit E c w = Return () w'"
proof (cases "existsSync (files w) (projectRoot c @ [''.git''])")
  case True
  then show ?thesis by (simp add: initGit_present)
next
  case False
  show ?thesis
  proof (cases "spawn E ''git'' [''init''] (Some (projectRoot c)) (files w)")
    case None
    from initGit_failed[OF False None] show ?thesis by blast
  next
    case (Some a)
    obtain out fs' where "a = (out, fs')" by (cases a)
    with initGit_spawned[OF False] Some show ?thesis by blast
  qed
qed

lemma reconcile_after_git:
  assumes "r_shouldInitGit r"
    and "(if \<not> r_withHusky r then removeHusky (r_context r) w else Return () w) = Return () w1"
    and "(if inMonorepo (r_context r) then moveNpmrc (r_context r) w1 else Return () w1) = Return () w2"
  shows "reconcile E args st r w = installDeps E args st r (world_of (initGit E (r_context r) w2))"
proof -
  obtain w3 where g: "initGit E (r_context r) w2 = Return () w3" using initGit_returns by blast
  have "reconcile E args st r w =
      await (if \<not> r_withHusky r then removeHusky (r_context r) w else Return () w) (\<lambda>_ w.
      await (if inMonorepo (r_context r) then moveNpmrc (r_context r) w else Return () w) (\<lambda>_ w.
      await (initGit E (r_context r) w) (\<lambda>_. installDeps E args st r)))"
    using assms(1) by (simp add: reconcile_def)
  also have "\<dots> = await (initGit E (r_context r) w2) (\<lambda>_. installDeps E args st r)"
    unfolding assms(2) await.simps assms(3) ..
  also have "\<dots> = installDeps E args st r (world_of (initGit E (r_context r) w2))"
    by (simp add: g)
  finally show ?thesis .
qed

lemma reconcile_relocation_throws:
  assumes "inMonorepo (r_context r)"
    and "(if \<not> r_withHusky r then removeHusky (r_context r) w else Return () w) = Return () w1"
    and "moveNpmrc (r_context r) w1 = Throw e w2"
  shows "reconcile E args st r w = Throw e w2"
  unfolding reconcile_def assms(2) await.simps using assms(1,3) by simp

lemma provision_external_example:
  "provision (example_env (Some ''8.6.0'') None True) external_args (DEFAULT_DATA ''4.0.0'')
     (example_locals [''a'', ''pkg'', ''b''] ENpmClient_pnpm)
     \<lparr> files = unpacked_tree,
       trace = [Exec ''npm'' [''config'', ''get'', ''registry''] None,
                UnpackTemplate ''my-template'' [''a'', ''pkg'', ''b''] ERegistry_npm] \<rparr> =
   Throw (ENOENT [''a'', ''pkg'', ''b'', ''.npmrc''])
     \<lparr> files = unpacked_tree,
       trace = [Exec ''npm'' [''config'', ''get'', ''registry''] None,
                UnpackTemplate ''my-template'' [''a'', ''pkg'', ''b''] ERegistry_npm,
                Exec ''pnpm'' [''--version''] None] \<rparr>"
proof -
  let ?E = "example_env (Some ''8.6.0'') None True"
  let ?st = "example_locals [''a'', ''pkg'', ''b''] ENpmClient_pnpm"
  let ?w1 = "\<lparr> files = unpacked_tree,
       trace = [Exec ''npm'' [''config'', ''get'', ''registry''] None,
                UnpackTemplate ''my-template'' [''a'', ''pkg'', ''b''] ERegistry_npm] \<rparr>"
  let ?w2 = "\<lparr> files = unpacked_tree,
       trace = [Exec ''npm'' [''config'', ''get'', ''registry''] None,
                UnpackTemplate ''my-template'' [''a'', ''pkg'', ''b''] ERegistry_npm,
                Exec ''pnpm'' [''--version''] None] \<rparr>"
  let ?r = "\<lparr> r_context = workspace_context, r_shouldInitGit = True, r_withHusky = False,
              r_isPnpm = True, r_pnpmMajorVersion = Some (Num 8), r_pnpmExtraNpmrc = [] \<rparr>"
  have c: "l_npmClient ?st = ENpmClient_pnpm" by (simp add: example_locals_def)
  have p: "projectContext (files ?w1) (l_target ?st) = workspace_context"
    by (simp add: projectContext_Some detect_unpacked_tree example_locals_def workspace_context_def)
  have r: "resolve ?E external_args ?st ?w1 = Return ?r ?w2"
    unfolding resolve_pnpm_Return[OF c getPnpmMajorVersion_example_8] p
    by (simp add: external_args_def workspace_context_def)
  have x: "useExternalTemplate external_args"
    by (simp add: useExternalTemplate_def external_args_def)
  have h: "(if \<not> r_withHusky ?r then removeHusky (r_context ?r) ?w2 else Return () ?w2) = Return () ?w2"
    by (simp add: workspace_context_def removeHusky_def join_single existsSync_def
        unpacked_tree_def spec_tree_def)
  have n: "\<not> existsSync (files ?w2) (projectRoot (r_context ?r) @ [''.npmrc''])"
    by (simp add: workspace_context_def existsSync_def unpacked_tree_def spec_tree_def)
  have s: "files ?w2 (target (r_context ?r) @ [''.npmrc'']) = None"
    by (simp add: workspace_context_def unpacked_tree_def spec_tree_def)
  have m: "moveNpmrc (r_context ?r) ?w2 = Throw (ENOENT [''a'', ''pkg'', ''b'', ''.npmrc'']) ?w2"
    using moveNpmrc_nothing_to_copy[OF n s] by (simp add: workspace_context_def)
  have k: "inMonorepo (r_context ?r)" by (simp add: workspace_context_def)
  have "reconcile ?E external_args ?st ?r ?w2 = Throw (ENOENT [''a'', ''pkg'', ''b'', ''.npmrc'']) ?w2"
    using k h m by (rule reconcile_relocation_throws)
  then show ?thesis unfolding provision_def r using x by simp
qed

text \<open>
  Claim C1, as amended. The git-init step never throws: when \<open>git init\<close> cannot be
  executed, the step returns with the log line \<open>Initial the git repo failed\<close> added
  and the tree unchanged; and whenever the steps before it have returned, the run goes
  on to the installation step in the world the git-init step left.
\<close>

theorem git_init_failure_is_logged_and_run_continues:
  "(\<exists>w'. initGit E c w = Return () w') \<and>
   (\<not> existsSync (files w) (projectRoot c @ [''.git'']) \<and>
    spawn E ''git'' [''init''] (Some (projectRoot c)) (files w) = None \<longrightarrow>
      initGit E c w =
        Return () (w\<lparr>trace := trace w @ [Exec ''git'' [''init''] (Some (projectRoot c)),
                                           LoggerError ''Initial the git repo failed'']\<rparr>)) \<and>
   (r_shouldInitGit r \<and>
    (if \<not> r_withHusky r then removeHusky (r_context r) w else Return () w) = Return () w1 \<and>
    (if inMonorepo (r_context r) then moveNpmrc (r_context r) w1 else Return () w1) = Return () w2 \<longrightarrow>
      reconcile E args st r w = installDeps E args st r (world_of (initGit E (r_context r) w2)))"
proof (intro conjI impI)
  show "\<exists>w'. initGit E c w = Return () w'" by (rule initGit_returns)
next
  assume "\<not> existsSync (files w) (projectRoot c @ [''.git'']) \<and>
    spawn E ''git'' [''init''] (Some (projectRoot c)) (files w) = None"
  then show "initGit E c w =
        Return () (w\<lparr>trace := trace w @ [Exec ''git'' [''init''] (Some (projectRoot c)),
                                           LoggerError ''Initial the git repo failed'']\<rparr>)"
    using initGit_failed by blast
next
  assume "r_shouldInitGit r \<and>
    (if \<not> r_withHusky r then removeHusky (r_context r) w else Return () w) = Return () w1 \<and>
    (if inMonorepo (r_context r) then moveNpmrc (r_context r) w1 else Return () w1) = Return () w2"
  then show "reconcile E args st r w =
      installDeps E args st r (world_of (initGit E (r_context r) w2))"
    using reconcile_after_git by blast
qed

theorem git_init_failure_is_logged_and_run_continues_witness:
  "\<not> existsSync (files (world_with Map.empty)) (projectRoot (r_context (example_resolved (Some (Num 9)))) @ [''.git'']) \<and>
   spawn (example_env None None False) ''git'' [''init'']
     (Some (projectRoot (r_context (example_resolved (Some (Num 9)))))) (files (world_with Map.empty)) = None \<and>
   initGit (example_env None None False) (r_context (example_resolved (Some (Num 9)))) (world_with Map.empty) =
     Return () \<lparr> files = Map.empty,
                 trace = [Exec ''git'' [''init''] (Some [''tmp'']),
                          LoggerError ''Initial the git repo failed''] \<rparr> \<and>
   r_shouldInitGit (example_resolved (Some (Num 9))) \<and>
   reconcile (example_env None None False) interactive_args (default_locals [''tmp''])
     (example_resolved (Some (Num 9))) (world_with Map.empty) =
     Return () \<lparr> files = Map.empty,
                 trace = [Exec ''git'' [''init''] (Some [''tmp'']),
                          LoggerError ''Initial the git repo failed'',
                          InstallWithNpmClient ENpmClient_pnpm [''tmp'']] \<rparr>"
proof -
  let ?E = "example_env None None False"
  let ?r = "example_resolved (Some (Num 9))"
  let ?w = "world_with Map.empty"
  let ?wg = "\<lparr> files = Map.empty,
                trace = [Exec ''git'' [''init''] (Some [''tmp'']),
                         LoggerError ''Initial the git repo failed''] \<rparr>"
  have n: "\<not> existsSync (files ?w) (projectRoot (r_context ?r) @ [''.git''])"
    by (simp add: world_with_def existsSync_def)
  have s: "spawn ?E ''git'' [''init''] (Some (projectRoot (r_context ?r))) (files ?w) = None"
    by (simp add: example_env_def)
  have g: "r_shouldInitGit ?r" by (simp add: example_resolved_def)
  have h: "(if \<not> r_withHusky ?r then removeHusky (r_context ?r) ?w else Return () ?w) = Return () ?w"
    by (simp add: example_resolved_def)
  have m: "(if inMonorepo (r_context ?r) then moveNpmrc (r_context ?r) ?w else Return () ?w)
      = Return () ?w"
    by (simp add: example_resolved_def)
  note t1 = git_init_failure_is_logged_and_run_continues
    [of ?E "r_context ?r" ?w ?r ?w ?w interactive_args "default_locals [''tmp'']"]
  from t1 n s have i: "initGit ?E (r_context ?r) ?w = Return () ?wg"
    by (simp add: world_with_def example_resolved_def)
  from t1 g h m
  have "reconcile ?E interactive_args (default_locals [''tmp'']) ?r ?w =
      installDeps ?E interactive_args (default_locals [''tmp'']) ?r (world_of (initGit ?E (r_context ?r) ?w))"
    by blast
  also have "\<dots> = installDeps ?E interactive_args (default_locals [''tmp'']) ?r ?wg"
    by (simp add: i)
  also have "\<dots> = Return () \<lparr> files = Map.empty,
                 trace = [Exec ''git'' [''init''] (Some [''tmp'']),
                          LoggerError ''Initial the git repo failed'',
                          InstallWithNpmClient ENpmClient_pnpm [''tmp'']] \<rparr>"
    by (simp add: installDeps_def useDefaultData_def interactive_args_def example_resolved_def
        installWithNpmClient_def emit_def example_env_def default_locals_def Let_def)
  finally have c: "reconcile ?E interactive_args (default_locals [''tmp'']) ?r ?w =
      Return () \<lparr> files = Map.empty,
                 trace = [Exec ''git'' [''init''] (Some [''tmp'']),
                          LoggerError ''Initial the git repo failed'',
                          InstallWithNpmClient ENpmClient_pnpm [''tmp'']] \<rparr>" .
  from n s i g c show ?thesis by blast
qed

text \<open>
  Claim C1 as stated, for all three steps, fails for config relocation: an external
  template unpacked into a workspace without a config file at either place makes the
  copy throw, and the generator throws with it; no log line is written and neither git
  init nor the installation runs.
\<close>

theorem config_relocation_failure_aborts_run_counterexample:
  "generator (example_env (Some ''8.6.0'') None True) pnpm_answers [''a'', ''pkg''] external_args None
     (world_with spec_tree) =
   Throw (ENOENT [''a'', ''pkg'', ''b'', ''.npmrc''])
     \<lparr> files = unpacked_tree,
       trace = [Exec ''npm'' [''config'', ''get'', ''registry''] None,
                UnpackTemplate ''my-template'' [''a'', ''pkg'', ''b''] ERegistry_npm,
                Exec ''pnpm'' [''--version''] None] \<rparr>"
proof -
  let ?E = "example_env (Some ''8.6.0'') None True"
  have v: "pkg_version ?E = ''4.0.0''" by (simp add: example_env_def)
  have "generator ?E pnpm_answers [''a'', ''pkg''] external_args None (world_with spec_tree) =
      provision ?E external_args (DEFAULT_DATA ''4.0.0'')
        (example_locals [''a'', ''pkg'', ''b''] ENpmClient_pnpm)
        \<lparr> files = unpacked_tree,
          trace = [Exec ''npm'' [''config'', ''get'', ''registry''] None,
                   UnpackTemplate ''my-template'' [''a'', ''pkg'', ''b''] ERegistry_npm] \<rparr>"
    by (simp add: generator_def v prepare_external_example)
  then show ?thesis by (simp only: provision_external_example)
qed

end
